theory Spec2Isabelle
  imports Complex_Main "HOL-Library.Sublist"
begin

section \<open>The coding assistant of \<^verbatim>\<open>.engine/coderabbitai.cpp\<close>\<close>

text \<open>
  The program is C: structures live in storage obtained from \<^verbatim>\<open>malloc\<close>, are reached
  through pointers and are released with \<^verbatim>\<open>free\<close>; its functions return \<^verbatim>\<open>void\<close> and
  report no error of their own. The embedding keeps this shape.
  \<^item> A pointer is \<^verbatim>\<open>NULL\<close> or an address; each structure type has its own store, a map
    from addresses to the objects that are alive.
  \<^item> A \<^verbatim>\<open>char *\<close> is \<open>None\<close> for \<^verbatim>\<open>NULL\<close> or \<open>Some s\<close>, where \<open>s\<close> is the bytes before the
    terminating zero. Every string a structure holds is a private copy made by
    \<^verbatim>\<open>strdup\<close> or \<^verbatim>\<open>malloc\<close>, so it is kept by value in the structure's record.
  \<^item> An \<^verbatim>\<open>int\<close> is a HOL \<open>int\<close> kept within 32 bits: leaving the range is signed overflow.
  \<^item> A \<^verbatim>\<open>double\<close> is a type parameter \<open>'d\<close>; only \<^verbatim>\<open>analyze_code_complexity\<close>
    computes with it, through the addition of that type.
  \<^item> A call has the result \<open>Inr\<close> of what it returns and the storage it leaves, or
    \<open>Inl\<close> of the undefined behaviour it runs into. An \<open>Inl\<close> is not an error the
    program detects: the C code has no check there, and nothing about the execution is
    guaranteed from that point on.
  \<^item> The allocator is taken to succeed (\<^verbatim>\<open>malloc\<close>, \<^verbatim>\<open>strdup\<close> and \<^verbatim>\<open>realloc\<close> return
    storage whenever the requested size is a size at all), and to hand out addresses
    that were never used before.
  \<^item> Standard output is the list of the texts written, one entry for each call of
    \<^verbatim>\<open>printf\<close>.
\<close>

subsection \<open>Data\<close>

datatype ptr = Null | Ptr nat

datatype fault =
    NullDeref        \<comment> \<open>access through \<^verbatim>\<open>NULL\<close>\<close>
  | Dangling         \<comment> \<open>access through a pointer to no live object (released, or never allocated)\<close>
  | OutOfBounds      \<comment> \<open>array access outside the allocated slots\<close>
  | Indeterminate    \<comment> \<open>use of a slot that was never written\<close>
  | BufferOverflow   \<comment> \<open>\<^verbatim>\<open>strcat\<close> beyond the end of the destination array\<close>
  | SignedOverflow   \<comment> \<open>\<^verbatim>\<open>int\<close> arithmetic outside the 32-bit range\<close>

type_synonym cstr = "string option"

record 'd CodePattern =
  code_snippet :: cstr
  language :: cstr
  complexity :: 'd

record CodeMemory =
  patterns :: ptr
  count :: int
  capacity :: int

record CodeWorkbench =
  code_request :: cstr
  current_code :: cstr
  suggested_code :: cstr

text \<open>
  The storage: the live objects of each type, the blocks of pattern pointers (a slot is
  \<open>None\<close> until it is written), the next address \<^verbatim>\<open>malloc\<close> hands out, and what has been
  printed.
\<close>

record 'd heap =
  pattern_objs :: "nat \<rightharpoonup> 'd CodePattern"
  arrays :: "nat \<rightharpoonup> ptr option list"
  memories :: "nat \<rightharpoonup> CodeMemory"
  workbenches :: "nat \<rightharpoonup> CodeWorkbench"
  next_addr :: nat
  stdout :: "string list"

definition INT_MAX :: int where
  "INT_MAX = 2147483647"

definition INT_MIN :: int where
  "INT_MIN = - 2147483648"

definition CODE_PATTERN_LIMIT :: int where
  "CODE_PATTERN_LIMIT = 10000"

definition CODE_COMPLEXITY_FACTOR :: "'d::one" where
  "CODE_COMPLEXITY_FACTOR = 1"

subsection \<open>Reading through pointers\<close>

definition pattern_at :: "'d heap \<Rightarrow> ptr \<Rightarrow> fault + 'd CodePattern" where
  "pattern_at h p =
     (case p of
        Null \<Rightarrow> Inl NullDeref
      | Ptr a \<Rightarrow> (case pattern_objs h a of None \<Rightarrow> Inl Dangling | Some x \<Rightarrow> Inr x))"

definition array_at :: "'d heap \<Rightarrow> ptr \<Rightarrow> fault + ptr option list" where
  "array_at h p =
     (case p of
        Null \<Rightarrow> Inl NullDeref
      | Ptr a \<Rightarrow> (case arrays h a of None \<Rightarrow> Inl Dangling | Some x \<Rightarrow> Inr x))"

definition memory_at :: "'d heap \<Rightarrow> ptr \<Rightarrow> fault + CodeMemory" where
  "memory_at h p =
     (case p of
        Null \<Rightarrow> Inl NullDeref
      | Ptr a \<Rightarrow> (case memories h a of None \<Rightarrow> Inl Dangling | Some x \<Rightarrow> Inr x))"

definition workbench_at :: "'d heap \<Rightarrow> ptr \<Rightarrow> fault + CodeWorkbench" where
  "workbench_at h p =
     (case p of
        Null \<Rightarrow> Inl NullDeref
      | Ptr a \<Rightarrow> (case workbenches h a of None \<Rightarrow> Inl Dangling | Some x \<Rightarrow> Inr x))"

text \<open>Writing through a pointer needs a live object as well.\<close>

definition put_pattern :: "ptr \<Rightarrow> 'd CodePattern \<Rightarrow> 'd heap \<Rightarrow> fault + 'd heap" where
  "put_pattern p x h =
     (case p of
        Null \<Rightarrow> Inl NullDeref
      | Ptr a \<Rightarrow>
          (case pattern_objs h a of
             None \<Rightarrow> Inl Dangling
           | Some _ \<Rightarrow> Inr (h\<lparr>pattern_objs := (pattern_objs h)(a \<mapsto> x)\<rparr>)))"

definition put_array :: "ptr \<Rightarrow> ptr option list \<Rightarrow> 'd heap \<Rightarrow> fault + 'd heap" where
  "put_array p x h =
     (case p of
        Null \<Rightarrow> Inl NullDeref
      | Ptr a \<Rightarrow>
          (case arrays h a of
             None \<Rightarrow> Inl Dangling
           | Some _ \<Rightarrow> Inr (h\<lparr>arrays := (arrays h)(a \<mapsto> x)\<rparr>)))"

definition put_memory :: "ptr \<Rightarrow> CodeMemory \<Rightarrow> 'd heap \<Rightarrow> fault + 'd heap" where
  "put_memory p x h =
     (case p of
        Null \<Rightarrow> Inl NullDeref
      | Ptr a \<Rightarrow>
          (case memories h a of
             None \<Rightarrow> Inl Dangling
           | Some _ \<Rightarrow> Inr (h\<lparr>memories := (memories h)(a \<mapsto> x)\<rparr>)))"

definition put_workbench :: "ptr \<Rightarrow> CodeWorkbench \<Rightarrow> 'd heap \<Rightarrow> fault + 'd heap" where
  "put_workbench p x h =
     (case p of
        Null \<Rightarrow> Inl NullDeref
      | Ptr a \<Rightarrow>
          (case workbenches h a of
             None \<Rightarrow> Inl Dangling
           | Some _ \<Rightarrow> Inr (h\<lparr>workbenches := (workbenches h)(a \<mapsto> x)\<rparr>)))"

subsection \<open>The C library, as far as the program uses it\<close>

text \<open>
  \<^verbatim>\<open>strcat(dst, src)\<close> into an array of \<open>n\<close> bytes that holds the text \<open>dst\<close>: the
  result and its terminating zero must fit.
\<close>

definition strcat_into :: "nat \<Rightarrow> string \<Rightarrow> cstr \<Rightarrow> fault + string" where
  "strcat_into n dst src =
     (case src of
        None \<Rightarrow> Inl NullDeref
      | Some s \<Rightarrow> if length dst + length s + 1 \<le> n then Inr (dst @ s) else Inl BufferOverflow)"

text \<open>\<^verbatim>\<open>printf\<close> with a format of fixed text around no, one or two \<^verbatim>\<open>%s\<close>.\<close>

definition printf0 :: "string \<Rightarrow> 'd heap \<Rightarrow> fault + 'd heap" where
  "printf0 txt h = Inr (h\<lparr>stdout := stdout h @ [txt]\<rparr>)"

definition printf1 :: "string \<Rightarrow> cstr \<Rightarrow> string \<Rightarrow> 'd heap \<Rightarrow> fault + 'd heap" where
  "printf1 pre a post h =
     (case a of
        None \<Rightarrow> Inl NullDeref
      | Some s \<Rightarrow> Inr (h\<lparr>stdout := stdout h @ [pre @ s @ post]\<rparr>))"

definition printf2 ::
  "string \<Rightarrow> cstr \<Rightarrow> string \<Rightarrow> cstr \<Rightarrow> string \<Rightarrow> 'd heap \<Rightarrow> fault + 'd heap" where
  "printf2 pre a mid b post h =
     (case a of
        None \<Rightarrow> Inl NullDeref
      | Some s \<Rightarrow>
          (case b of
             None \<Rightarrow> Inl NullDeref
           | Some t \<Rightarrow> Inr (h\<lparr>stdout := stdout h @ [pre @ s @ mid @ t @ post]\<rparr>)))"

text \<open>
  \<^verbatim>\<open>realloc(p, n * sizeof(CodePattern *))\<close> for an \<^verbatim>\<open>int\<close> \<open>n\<close>. A negative \<open>n\<close> becomes a
  size beyond any address space: the call fails, returns \<^verbatim>\<open>NULL\<close> and leaves the old block.
  Otherwise a new block of \<open>n\<close> slots receives the old slots that fit, the old block is
  released, and the added slots are not written yet. For \<open>n = 0\<close> the C standard leaves the
  result to the implementation (\<^verbatim>\<open>NULL\<close> or a block of no slots); the block of no slots
  is taken here, and no slot can be written in either.
\<close>

definition realloc_patterns :: "ptr \<Rightarrow> int \<Rightarrow> 'd heap \<Rightarrow> fault + (ptr \<times> 'd heap)" where
  "realloc_patterns p n h =
     (case p of
        Null \<Rightarrow>
          if n < 0 then Inr (Null, h)
          else Inr (Ptr (next_addr h),
                    h\<lparr>arrays := (arrays h)(next_addr h \<mapsto> replicate (nat n) None),
                      next_addr := Suc (next_addr h)\<rparr>)
      | Ptr a \<Rightarrow>
          (case arrays h a of
             None \<Rightarrow> Inl Dangling
           | Some slots \<Rightarrow>
               if n < 0 then Inr (Null, h)
               else Inr (Ptr (next_addr h),
                         h\<lparr>arrays := ((arrays h)(a := None))(next_addr h \<mapsto>
                              take (nat n) slots @ replicate (nat n - length slots) None),
                           next_addr := Suc (next_addr h)\<rparr>)))"

text \<open>A straight-line block of statements: each runs on the storage the one before left.\<close>

fun run :: "('s \<Rightarrow> fault + 's) list \<Rightarrow> 's \<Rightarrow> fault + 's" where
  "run [] h = Inr h"
| "run (stmt # stmts) h = (case stmt h of Inl e \<Rightarrow> Inl e | Inr h' \<Rightarrow> run stmts h')"

text \<open>A statement that reads the fields of a workbench.\<close>

definition with_workbench ::
  "ptr \<Rightarrow> (CodeWorkbench \<Rightarrow> 'd heap \<Rightarrow> fault + 'd heap) \<Rightarrow> 'd heap \<Rightarrow> fault + 'd heap" where
  "with_workbench p f h = (case workbench_at h p of Inl e \<Rightarrow> Inl e | Inr w \<Rightarrow> f w h)"

subsection \<open>Code pattern management\<close>

text \<open>\<^verbatim>\<open>create_code_pattern\<close>: a new pattern with copies of the two strings.\<close>

definition create_code_pattern :: "cstr \<Rightarrow> cstr \<Rightarrow> 'd \<Rightarrow> 'd heap \<Rightarrow> fault + (ptr \<times> 'd heap)" where
  "create_code_pattern snippet lang cplx h =
     (case snippet of
        None \<Rightarrow> Inl NullDeref
      | Some s \<Rightarrow>
          (case lang of
             None \<Rightarrow> Inl NullDeref
           | Some l \<Rightarrow>
               Inr (Ptr (next_addr h),
                    h\<lparr>pattern_objs := (pattern_objs h)(next_addr h \<mapsto>
                         \<lparr>code_snippet = Some s, language = Some l, complexity = cplx\<rparr>),
                      next_addr := Suc (next_addr h)\<rparr>)))"

text \<open>
  \<^verbatim>\<open>add_pattern_to_memory\<close>. When \<^verbatim>\<open>count == capacity\<close> the capacity is multiplied by 2
  and the block of pattern pointers is reallocated to the new capacity; then the
  pattern pointer is written at index \<^verbatim>\<open>count\<close>, and \<^verbatim>\<open>count\<close> is incremented. The function
  does not look at the block otherwise: it writes where \<^verbatim>\<open>patterns\<close> points, whatever is
  allocated there.
\<close>

definition add_pattern_to_memory :: "ptr \<Rightarrow> ptr \<Rightarrow> 'd heap \<Rightarrow> fault + 'd heap" where
  "add_pattern_to_memory memory pattern h =
     (case memory_at h memory of
        Inl e \<Rightarrow> Inl e
      | Inr m \<Rightarrow>
          (case (if count m = capacity m then
                   (if capacity m * 2 < INT_MIN \<or> INT_MAX < capacity m * 2 then Inl SignedOverflow
                    else (case realloc_patterns (patterns m) (capacity m * 2) h of
                            Inl e \<Rightarrow> Inl e
                          | Inr (p, h') \<Rightarrow> Inr (m\<lparr>capacity := capacity m * 2, patterns := p\<rparr>, h')))
                 else Inr (m, h)) of
             Inl e \<Rightarrow> Inl e
           | Inr (m1, h1) \<Rightarrow>
               (case array_at h1 (patterns m1) of
                  Inl e \<Rightarrow> Inl e
                | Inr slots \<Rightarrow>
                    if count m1 < 0 \<or> int (length slots) \<le> count m1 then Inl OutOfBounds
                    else if count m1 = INT_MAX then Inl SignedOverflow
                    else (case put_array (patterns m1) (slots[nat (count m1) := Some pattern]) h1 of
                            Inl e \<Rightarrow> Inl e
                          | Inr h2 \<Rightarrow> put_memory memory (m1\<lparr>count := count m1 + 1\<rparr>) h2))))"

text \<open>\<^verbatim>\<open>analyze_code_complexity\<close>: the complexity of the pattern grows by the factor.\<close>

definition analyze_code_complexity :: "ptr \<Rightarrow> ('d::{plus,one}) heap \<Rightarrow> fault + 'd heap" where
  "analyze_code_complexity pattern h =
     (case pattern_at h pattern of
        Inl e \<Rightarrow> Inl e
      | Inr x \<Rightarrow> put_pattern pattern (x\<lparr>complexity := complexity x + CODE_COMPLEXITY_FACTOR\<rparr>) h)"

text \<open>\<^verbatim>\<open>free_code_pattern\<close>: the two strings and the pattern are released.\<close>

definition free_code_pattern :: "ptr \<Rightarrow> 'd heap \<Rightarrow> fault + 'd heap" where
  "free_code_pattern pattern h =
     (case pattern_at h pattern of
        Inl e \<Rightarrow> Inl e
      | Inr x \<Rightarrow>
          (case pattern of
             Null \<Rightarrow> Inl NullDeref
           | Ptr a \<Rightarrow> Inr (h\<lparr>pattern_objs := (pattern_objs h)(a := None)\<rparr>)))"

text \<open>
  \<^verbatim>\<open>free_code_memory\<close>: the loop releases the patterns in the slots \<open>0\<close> to \<^verbatim>\<open>count - 1\<close>, one
  iteration for each index; then the block and the structure are released
  (\<^verbatim>\<open>free(NULL)\<close> does nothing).
\<close>

definition read_slot :: "'d heap \<Rightarrow> ptr \<Rightarrow> nat \<Rightarrow> fault + ptr" where
  "read_slot h memory i =
     (case memory_at h memory of
        Inl e \<Rightarrow> Inl e
      | Inr m \<Rightarrow>
          (case array_at h (patterns m) of
             Inl e \<Rightarrow> Inl e
           | Inr slots \<Rightarrow>
               if length slots \<le> i then Inl OutOfBounds
               else (case slots ! i of None \<Rightarrow> Inl Indeterminate | Some p \<Rightarrow> Inr p)))"

definition free_slot :: "ptr \<Rightarrow> nat \<Rightarrow> 'd heap \<Rightarrow> fault + 'd heap" where
  "free_slot memory i h =
     (case read_slot h memory i of Inl e \<Rightarrow> Inl e | Inr p \<Rightarrow> free_code_pattern p h)"

definition free_code_memory :: "ptr \<Rightarrow> 'd heap \<Rightarrow> fault + 'd heap" where
  "free_code_memory memory h =
     (case memory_at h memory of
        Inl e \<Rightarrow> Inl e
      | Inr m \<Rightarrow>
          (case run (map (free_slot memory) [0 ..< nat (count m)]) h of
             Inl e \<Rightarrow> Inl e
           | Inr h1 \<Rightarrow>
               (case memory of
                  Null \<Rightarrow> Inl NullDeref
                | Ptr a \<Rightarrow>
                    (case patterns m of
                       Null \<Rightarrow> Inr (h1\<lparr>memories := (memories h1)(a := None)\<rparr>)
                     | Ptr b \<Rightarrow>
                         (case arrays h1 b of
                            None \<Rightarrow> Inl Dangling
                          | Some _ \<Rightarrow>
                              Inr (h1\<lparr>arrays := (arrays h1)(b := None),
                                      memories := (memories h1)(a := None)\<rparr>))))))"

subsection \<open>Code workbench functions\<close>

text \<open>
  \<^verbatim>\<open>init_code_workbench\<close>: a new workbench holding a copy of the request; the two code
  fields are \<^verbatim>\<open>NULL\<close>.
\<close>

definition init_code_workbench :: "cstr \<Rightarrow> 'd heap \<Rightarrow> fault + (ptr \<times> 'd heap)" where
  "init_code_workbench request h =
     (case request of
        None \<Rightarrow> Inl NullDeref
      | Some r \<Rightarrow>
          Inr (Ptr (next_addr h),
               h\<lparr>workbenches := (workbenches h)(next_addr h \<mapsto>
                    \<lparr>code_request = Some r, current_code = None, suggested_code = None\<rparr>),
                 next_addr := Suc (next_addr h)\<rparr>))"

text \<open>
  \<^verbatim>\<open>update_code_suggestion\<close>: the old suggestion, if there is one, is released and a copy
  of the new one takes its place.
\<close>

definition update_code_suggestion :: "ptr \<Rightarrow> cstr \<Rightarrow> 'd heap \<Rightarrow> fault + 'd heap" where
  "update_code_suggestion workbench new_suggestion h =
     (case workbench_at h workbench of
        Inl e \<Rightarrow> Inl e
      | Inr w \<Rightarrow>
          (case new_suggestion of
             None \<Rightarrow> Inl NullDeref
           | Some s \<Rightarrow> put_workbench workbench (w\<lparr>suggested_code := Some s\<rparr>) h))"

text \<open>
  \<^verbatim>\<open>commit_code_change\<close>: with a current code, a new block receives the current code
  followed by the change and replaces it; without one, the current code is a copy of the
  change.
\<close>

definition commit_code_change :: "ptr \<Rightarrow> cstr \<Rightarrow> 'd heap \<Rightarrow> fault + 'd heap" where
  "commit_code_change workbench change h =
     (case workbench_at h workbench of
        Inl e \<Rightarrow> Inl e
      | Inr w \<Rightarrow>
          (case current_code w of
             Some cur \<Rightarrow>
               (case change of
                  None \<Rightarrow> Inl NullDeref
                | Some c \<Rightarrow> put_workbench workbench (w\<lparr>current_code := Some (cur @ c)\<rparr>) h)
           | None \<Rightarrow>
               (case change of
                  None \<Rightarrow> Inl NullDeref
                | Some c \<Rightarrow> put_workbench workbench (w\<lparr>current_code := Some c\<rparr>) h)))"

subsection \<open>AI processing\<close>

text \<open>
  \<^verbatim>\<open>generate_code_suggestion\<close>: an array of 1024 bytes starts with the first text, the
  second is appended with \<^verbatim>\<open>strcat\<close>, and the result becomes the suggestion. Neither the
  request nor the memory is read.
\<close>

definition generate_code_suggestion :: "ptr \<Rightarrow> ptr \<Rightarrow> 'd heap \<Rightarrow> fault + 'd heap" where
  "generate_code_suggestion workbench memory h =
     (case strcat_into 1024 ''Here's a suggestion based on your request:\<newline>''
             (Some ''/* Your generated code here */'') of
        Inl e \<Rightarrow> Inl e
      | Inr suggestion \<Rightarrow> update_code_suggestion workbench (Some suggestion) h)"

definition process_code_request :: "ptr \<Rightarrow> ptr \<Rightarrow> 'd heap \<Rightarrow> fault + 'd heap" where
  "process_code_request workbench memory h = generate_code_suggestion workbench memory h"

text \<open>
  \<^verbatim>\<open>refine_code_suggestion\<close>: an array of 1024 bytes starts with the marker, the current
  suggestion is appended with \<^verbatim>\<open>strcat\<close>, and the result becomes the suggestion.
\<close>

definition refine_code_suggestion :: "ptr \<Rightarrow> ptr \<Rightarrow> 'd heap \<Rightarrow> fault + 'd heap" where
  "refine_code_suggestion workbench memory h =
     (case workbench_at h workbench of
        Inl e \<Rightarrow> Inl e
      | Inr w \<Rightarrow>
          (case strcat_into 1024 ''Refined code suggestion:\<newline>'' (suggested_code w) of
             Inl e \<Rightarrow> Inl e
           | Inr refined \<Rightarrow> update_code_suggestion workbench (Some refined) h))"

subsection \<open>Blockchain integration\<close>

text \<open>\<^verbatim>\<open>commit_code_to_blockchain\<close> prints the description and the code, nothing else.\<close>

definition commit_code_to_blockchain :: "cstr \<Rightarrow> cstr \<Rightarrow> 'd heap \<Rightarrow> fault + 'd heap" where
  "commit_code_to_blockchain code description h =
     printf2 ''Committing code to blockchain: '' description '' - '' code ''\<newline>'' h"

subsection \<open>Main orchestration\<close>

text \<open>
  The body of \<^verbatim>\<open>orchestrate_coding_session\<close> is eight statements in a row (the four calls
  of \<^verbatim>\<open>free\<close> at its end are one statement here: the strings are part of the workbench's
  record).
\<close>

definition free_workbench :: "ptr \<Rightarrow> 'd heap \<Rightarrow> fault + 'd heap" where
  "free_workbench workbench h =
     (case workbench_at h workbench of
        Inl e \<Rightarrow> Inl e
      | Inr w \<Rightarrow>
          (case workbench of
             Null \<Rightarrow> Inl NullDeref
           | Ptr a \<Rightarrow> Inr (h\<lparr>workbenches := (workbenches h)(a := None)\<rparr>)))"

definition session_body :: "ptr \<Rightarrow> ptr \<Rightarrow> ('d heap \<Rightarrow> fault + 'd heap) list" where
  "session_body workbench memory =
     [with_workbench workbench
        (\<lambda>w. printf1 ''Starting coding session for request: '' (code_request w) ''\<newline>''),
      process_code_request workbench memory,
      with_workbench workbench
        (\<lambda>w. printf1 ''Initial suggestion:\<newline>'' (suggested_code w) ''\<newline>''),
      refine_code_suggestion workbench memory,
      with_workbench workbench
        (\<lambda>w. printf1 ''Refined suggestion:\<newline>'' (suggested_code w) ''\<newline>''),
      with_workbench workbench
        (\<lambda>w. commit_code_to_blockchain (suggested_code w) (Some ''Final Suggestion'')),
      printf0 ''Coding session completed.\<newline>'',
      free_workbench workbench]"

definition orchestrate_coding_session :: "ptr \<Rightarrow> ptr \<Rightarrow> 'd heap \<Rightarrow> fault + 'd heap" where
  "orchestrate_coding_session workbench memory h = run (session_body workbench memory) h"

text \<open>
  A session for a request and a memory, as \<^verbatim>\<open>main\<close> runs it: the workbench is created from
  the request and handed to \<^verbatim>\<open>orchestrate_coding_session\<close>.
\<close>

definition run_session :: "string \<Rightarrow> ptr \<Rightarrow> 'd heap \<Rightarrow> fault + 'd heap" where
  "run_session request memory h =
     (case init_code_workbench (Some request) h of
        Inl e \<Rightarrow> Inl e
      | Inr (workbench, h1) \<Rightarrow> orchestrate_coding_session workbench memory h1)"

text \<open>
  The memory as \<^verbatim>\<open>main\<close> sets it up, with the capacity as a parameter (\<^verbatim>\<open>main\<close> has 10):
  no block of pattern pointers, no pattern, the given capacity.
\<close>

definition new_code_memory :: "int \<Rightarrow> 'd heap \<Rightarrow> ptr \<times> 'd heap" where
  "new_code_memory cap h =
     (Ptr (next_addr h),
      h\<lparr>memories := (memories h)(next_addr h \<mapsto> \<lparr>patterns = Null, count = 0, capacity = cap\<rparr>),
        next_addr := Suc (next_addr h)\<rparr>)"

definition main :: "'d heap \<Rightarrow> fault + (int \<times> 'd heap)" where
  "main h =
     (case new_code_memory 10 h of
        (memory, h1) \<Rightarrow>
          (case run_session ''Create a function to sort an array'' memory h1 of
             Inl e \<Rightarrow> Inl e
           | Inr h2 \<Rightarrow>
               (case free_code_memory memory h2 of
                  Inl e \<Rightarrow> Inl e
                | Inr h3 \<Rightarrow> Inr (0, h3))))"

section \<open>What the properties speak about\<close>

text \<open>
  Iterating a store reads the slots \<open>0\<close> to \<^verbatim>\<open>count - 1\<close> in this order, as the loop of
  \<^verbatim>\<open>free_code_memory\<close> does.
\<close>

fun collect :: "(fault + 'a) list \<Rightarrow> fault + 'a list" where
  "collect [] = Inr []"
| "collect (r # rs) =
     (case r of
        Inl e \<Rightarrow> Inl e
      | Inr x \<Rightarrow> (case collect rs of Inl e \<Rightarrow> Inl e | Inr xs \<Rightarrow> Inr (x # xs)))"

definition iterate_patterns :: "'d heap \<Rightarrow> ptr \<Rightarrow> fault + ptr list" where
  "iterate_patterns h memory =
     (case memory_at h memory of
        Inl e \<Rightarrow> Inl e
      | Inr m \<Rightarrow> collect (map (read_slot h memory) [0 ..< nat (count m)]))"

text \<open>
  \<open>is_store h memory cap xs\<close>: \<open>memory\<close> points to a live store whose block of pattern
  pointers is allocated with \<open>cap\<close> slots, \<open>cap\<close> being its capacity and at least 1, and
  whose first \<^verbatim>\<open>count\<close> slots hold the pointers \<open>xs\<close>. This is what
  \<^verbatim>\<open>add_pattern_to_memory\<close> expects of its caller (``Caller is responsible for ensuring
  memory is properly allocated before calling'').
\<close>

definition is_store :: "'d heap \<Rightarrow> ptr \<Rightarrow> int \<Rightarrow> ptr list \<Rightarrow> bool" where
  "is_store h memory cap xs =
     (case memory of
        Null \<Rightarrow> False
      | Ptr a \<Rightarrow>
          (case memories h a of
             None \<Rightarrow> False
           | Some m \<Rightarrow>
               (case patterns m of
                  Null \<Rightarrow> False
                | Ptr b \<Rightarrow>
                    (case arrays h b of
                       None \<Rightarrow> False
                     | Some slots \<Rightarrow>
                         capacity m = cap \<and> int (length slots) = cap \<and> 1 \<le> cap \<and> cap \<le> INT_MAX \<and>
                         count m = int (length xs) \<and> length xs \<le> length slots \<and>
                         take (length xs) slots = map Some xs))))"

text \<open>The count and the capacity of the store \<open>memory\<close> points to.\<close>

definition count_of :: "'d heap \<Rightarrow> ptr \<Rightarrow> fault + int" where
  "count_of h memory = (case memory_at h memory of Inl e \<Rightarrow> Inl e | Inr m \<Rightarrow> Inr (count m))"

definition capacity_of :: "'d heap \<Rightarrow> ptr \<Rightarrow> fault + int" where
  "capacity_of h memory = (case memory_at h memory of Inl e \<Rightarrow> Inl e | Inr m \<Rightarrow> Inr (capacity m))"

text \<open>The invariant of a store: its capacity is at least its count.\<close>

definition capacity_ge_count :: "'d heap \<Rightarrow> ptr \<Rightarrow> bool" where
  "capacity_ge_count h memory =
     (case memory_at h memory of Inl e \<Rightarrow> False | Inr m \<Rightarrow> count m \<le> capacity m)"

text \<open>The fields of the workbench \<open>workbench\<close> points to.\<close>

definition current_code_of :: "'d heap \<Rightarrow> ptr \<Rightarrow> fault + cstr" where
  "current_code_of h workbench =
     (case workbench_at h workbench of Inl e \<Rightarrow> Inl e | Inr w \<Rightarrow> Inr (current_code w))"

definition suggested_code_of :: "'d heap \<Rightarrow> ptr \<Rightarrow> fault + cstr" where
  "suggested_code_of h workbench =
     (case workbench_at h workbench of Inl e \<Rightarrow> Inl e | Inr w \<Rightarrow> Inr (suggested_code w))"

text \<open>The part of the storage that makes up the pattern stores.\<close>

definition store_part ::
  "'d heap \<Rightarrow> (nat \<rightharpoonup> 'd CodePattern) \<times> (nat \<rightharpoonup> ptr option list) \<times> (nat \<rightharpoonup> CodeMemory)" where
  "store_part h = (pattern_objs h, arrays h, memories h)"

text \<open>The two fixed texts of the suggestion engine and of the refinement stage.\<close>

definition suggestion_template :: string where
  "suggestion_template =
     ''Here's a suggestion based on your request:\<newline>/* Your generated code here */''"

definition refinement_marker :: string where
  "refinement_marker = ''Refined code suggestion:\<newline>''"

text \<open>What a session prints, one text for each \<^verbatim>\<open>printf\<close>.\<close>

definition commit_output :: "string \<Rightarrow> string \<Rightarrow> string" where
  "commit_output description code =
     ''Committing code to blockchain: '' @ description @ '' - '' @ code @ ''\<newline>''"

definition session_output :: "string \<Rightarrow> string list" where
  "session_output request =
     [''Starting coding session for request: '' @ request @ ''\<newline>'',
      ''Initial suggestion:\<newline>'' @ suggestion_template @ ''\<newline>'',
      ''Refined suggestion:\<newline>'' @ refinement_marker @ suggestion_template @ ''\<newline>'',
      commit_output ''Final Suggestion'' (refinement_marker @ suggestion_template),
      ''Coding session completed.\<newline>'']"

text \<open>Storage for examples: nothing allocated, nothing printed.\<close>

definition empty_heap :: "real heap" where
  "empty_heap =
     \<lparr>pattern_objs = Map.empty, arrays = Map.empty, memories = Map.empty,
      workbenches = Map.empty, next_addr = 0, stdout = []\<rparr>"

text \<open>A workbench at address 0 with the given fields, and nothing else.\<close>

definition workbench_heap :: "CodeWorkbench \<Rightarrow> real heap" where
  "workbench_heap w = empty_heap\<lparr>workbenches := [0 \<mapsto> w], next_addr := 1\<rparr>"

text \<open>
  An empty store at address 0 with a block of \<open>n\<close> slots at address 1, \<open>n\<close> being its
  capacity, and one pattern at address 2 that is not in the store yet.
\<close>

definition store_heap :: "nat \<Rightarrow> real heap" where
  "store_heap n =
     empty_heap\<lparr>pattern_objs :=
                  [2 \<mapsto> \<lparr>code_snippet = Some ''int x;'', language = Some ''C'', complexity = 1\<rparr>],
                arrays := [1 \<mapsto> replicate n None],
                memories := [0 \<mapsto> \<lparr>patterns = Ptr 1, count = 0, capacity = int n\<rparr>],
                next_addr := 3\<rparr>"

text \<open>
  A store at address 0 that holds the pattern at address 2 in each of its 1073741824
  slots: it is full.
\<close>

definition full_store_heap :: "real heap" where
  "full_store_heap =
     empty_heap\<lparr>pattern_objs :=
                  [2 \<mapsto> \<lparr>code_snippet = Some ''int x;'', language = Some ''C'', complexity = 1\<rparr>],
                arrays := [1 \<mapsto> replicate 1073741824 (Some (Ptr 2))],
                memories :=
                  [0 \<mapsto> \<lparr>patterns = Ptr 1, count = 1073741824, capacity = 1073741824\<rparr>],
                next_addr := 3\<rparr>"

text \<open>
  The memory of \<^verbatim>\<open>main\<close> at address 0 (capacity 10, no block), and one pattern at address 1.
\<close>

definition main_memory_heap :: "real heap" where
  "main_memory_heap =
     empty_heap\<lparr>pattern_objs :=
                  [1 \<mapsto> \<lparr>code_snippet = Some ''int x;'', language = Some ''C'', complexity = 1\<rparr>],
                memories := [0 \<mapsto> \<lparr>patterns = Null, count = 0, capacity = 10\<rparr>],
                next_addr := 2\<rparr>"

text \<open>The storage at the end of a session for ``sort an array'' that started on nothing.\<close>

definition session_end_heap :: "real heap" where
  "session_end_heap = empty_heap\<lparr>next_addr := 1, stdout := session_output ''sort an array''\<rparr>"

text \<open>A workbench that has only its request.\<close>

definition fresh_workbench :: "string \<Rightarrow> CodeWorkbench" where
  "fresh_workbench request =
     \<lparr>code_request = Some request, current_code = None, suggested_code = None\<rparr>"

text \<open>The text a fresh workbench for a request receives from \<^verbatim>\<open>generate_code_suggestion\<close>.\<close>

definition generated_for :: "string \<Rightarrow> fault + cstr" where
  "generated_for request =
     (case generate_code_suggestion (Ptr 0) Null (workbench_heap (fresh_workbench request)) of
        Inl e \<Rightarrow> Inl e
      | Inr h \<Rightarrow> suggested_code_of h (Ptr 0))"

text \<open>The texts that \<^verbatim>\<open>commit_code_to_blockchain\<close> prints start like this.\<close>

definition is_commit_output :: "string \<Rightarrow> bool" where
  "is_commit_output txt = (take 31 txt = ''Committing code to blockchain: '')"

text \<open>
  The five steps of a session in the words of the specification (RunSession): Init,
  Generate, Refine, Commit of the suggested code with the description ``Final
  Suggestion'', Close. It is compared with \<open>run_session\<close> below.
\<close>

definition spec_RunSession :: "string \<Rightarrow> ptr \<Rightarrow> 'd heap \<Rightarrow> fault + 'd heap" where
  "spec_RunSession request store h =
     (case init_code_workbench (Some request) h of
        Inl e \<Rightarrow> Inl e
      | Inr (workbench, h1) \<Rightarrow>
          (case generate_code_suggestion workbench store h1 of
             Inl e \<Rightarrow> Inl e
           | Inr h2 \<Rightarrow>
               (case refine_code_suggestion workbench store h2 of
                  Inl e \<Rightarrow> Inl e
                | Inr h3 \<Rightarrow>
                    (case suggested_code_of h3 workbench of
                       Inl e \<Rightarrow> Inl e
                     | Inr code \<Rightarrow>
                         (case commit_code_to_blockchain code (Some ''Final Suggestion'') h3 of
                            Inl e \<Rightarrow> Inl e
                          | Inr h4 \<Rightarrow> free_workbench workbench h4)))))"

text \<open>The two operations that change a store, to speak about sequences of them.\<close>

datatype store_op = Add ptr | AnalyzeComplexity ptr

fun apply_op :: "ptr \<Rightarrow> store_op \<Rightarrow> ('d::{plus,one}) heap \<Rightarrow> fault + 'd heap" where
  "apply_op memory (Add p) h = add_pattern_to_memory memory p h"
| "apply_op memory (AnalyzeComplexity p) h = analyze_code_complexity p h"

text \<open>The patterns that a sequence of operations adds, in the order of the calls.\<close>

fun adds_of :: "store_op list \<Rightarrow> ptr list" where
  "adds_of [] = []"
| "adds_of (Add p # ops) = p # adds_of ops"
| "adds_of (AnalyzeComplexity p # ops) = adds_of ops"

section \<open>Properties\<close>

subsection \<open>Reading and writing live objects\<close>

lemma workbench_at_live [simp]:
  "workbenches h a = Some w \<Longrightarrow> workbench_at h (Ptr a) = Inr w"
  by (simp add: workbench_at_def)

lemma workbench_at_released [simp]:
  "workbenches h a = None \<Longrightarrow> workbench_at h (Ptr a) = Inl Dangling"
  by (simp add: workbench_at_def)

lemma put_workbench_live [simp]:
  "workbenches h a = Some w \<Longrightarrow>
   put_workbench (Ptr a) x h = Inr (h\<lparr>workbenches := (workbenches h)(a \<mapsto> x)\<rparr>)"
  by (simp add: put_workbench_def)

lemma workbench_at_InrD:
  "workbench_at h p = Inr w \<Longrightarrow> \<exists>a. p = Ptr a \<and> workbenches h a = Some w"
  by (auto simp: workbench_at_def split: ptr.splits option.splits)

lemma current_code_of_InrD:
  "current_code_of h p = Inr c \<Longrightarrow>
   \<exists>a w. p = Ptr a \<and> workbenches h a = Some w \<and> current_code w = c"
  by (auto simp: current_code_of_def dest: workbench_at_InrD split: sum.splits)

lemma suggested_code_of_InrD:
  "suggested_code_of h p = Inr c \<Longrightarrow>
   \<exists>a w. p = Ptr a \<and> workbenches h a = Some w \<and> suggested_code w = c"
  by (auto simp: suggested_code_of_def dest: workbench_at_InrD split: sum.splits)

lemma run_append:
  "run (ss @ ts) h = (case run ss h of Inl e \<Rightarrow> Inl e | Inr h' \<Rightarrow> run ts h')"
  by (induction ss arbitrary: h) (auto split: sum.splits)

subsection \<open>The workbench functions on a live workbench\<close>

lemma update_code_suggestion_live:
  "workbenches h a = Some w \<Longrightarrow>
   update_code_suggestion (Ptr a) (Some s) h =
     Inr (h\<lparr>workbenches := (workbenches h)(a \<mapsto> w\<lparr>suggested_code := Some s\<rparr>)\<rparr>)"
  by (simp add: update_code_suggestion_def)

lemma commit_code_change_live:
  "workbenches h a = Some w \<Longrightarrow>
   commit_code_change (Ptr a) (Some c) h =
     Inr (h\<lparr>workbenches := (workbenches h)(a \<mapsto>
            w\<lparr>current_code := Some (case current_code w of None \<Rightarrow> c | Some cur \<Rightarrow> cur @ c)\<rparr>)\<rparr>)"
  by (simp add: commit_code_change_def split: option.splits)

lemma generate_code_suggestion_live:
  "workbenches h a = Some w \<Longrightarrow>
   generate_code_suggestion (Ptr a) memory h =
     Inr (h\<lparr>workbenches := (workbenches h)(a \<mapsto> w\<lparr>suggested_code := Some suggestion_template\<rparr>)\<rparr>)"
  by (simp add: generate_code_suggestion_def strcat_into_def suggestion_template_def
      update_code_suggestion_live)

lemma refine_code_suggestion_live:
  "workbenches h a = Some w \<Longrightarrow> suggested_code w = Some s \<Longrightarrow> length s \<le> 998 \<Longrightarrow>
   refine_code_suggestion (Ptr a) memory h =
     Inr (h\<lparr>workbenches := (workbenches h)(a \<mapsto>
            w\<lparr>suggested_code := Some (refinement_marker @ s)\<rparr>)\<rparr>)"
  by (simp add: refine_code_suggestion_def strcat_into_def refinement_marker_def
      update_code_suggestion_live)

lemma refine_code_suggestion_overflow:
  "workbenches h a = Some w \<Longrightarrow> suggested_code w = Some s \<Longrightarrow> 998 < length s \<Longrightarrow>
   refine_code_suggestion (Ptr a) memory h = Inl BufferOverflow"
  by (simp add: refine_code_suggestion_def strcat_into_def)

lemma length_suggestion_template: "length suggestion_template = 73"
  by (simp add: suggestion_template_def)

lemma length_refinement_marker: "length refinement_marker = 25"
  by (simp add: refinement_marker_def)

text \<open>
  While the 1024 bytes suffice, refining twice nests the marker, and the result of two
  calls is never the result of one.
\<close>

lemma refine_twice_nests:
  assumes "workbenches h a = Some w" "suggested_code w = Some s" "length s \<le> 973"
  shows "run [refine_code_suggestion (Ptr a) memory, refine_code_suggestion (Ptr a) memory] h =
           Inr (h\<lparr>workbenches := (workbenches h)(a \<mapsto>
                  w\<lparr>suggested_code := Some (refinement_marker @ refinement_marker @ s)\<rparr>)\<rparr>)"
    and "refinement_marker @ refinement_marker @ s \<noteq> refinement_marker @ s"
  using assms
  by (simp_all add: refine_code_suggestion_live length_refinement_marker)
    (simp add: refinement_marker_def)

text \<open>
  Each call makes the suggestion 25 bytes longer, so repeated refinement runs out of the
  1024 bytes.
\<close>

lemma concat_replicate_commute:
  "concat (replicate n m) @ m @ s = m @ concat (replicate n m) @ s"
  by (induction n) simp_all

lemma refine_many:
  "workbenches h a = Some w \<Longrightarrow> suggested_code w = Some s \<Longrightarrow> length s + 25 * n \<le> 1023 \<Longrightarrow>
   run (replicate n (refine_code_suggestion (Ptr a) memory)) h =
     Inr (if n = 0 then h
          else h\<lparr>workbenches := (workbenches h)(a \<mapsto>
                 w\<lparr>suggested_code := Some (concat (replicate n refinement_marker) @ s)\<rparr>)\<rparr>)"
proof (induction n arbitrary: h w s)
  case 0
  then show ?case by simp
next
  case (Suc n)
  have len: "length s \<le> 998" using Suc.prems by simp
  let ?w = "w\<lparr>suggested_code := Some (refinement_marker @ s)\<rparr>"
  let ?h = "h\<lparr>workbenches := (workbenches h)(a \<mapsto> ?w)\<rparr>"
  have step: "refine_code_suggestion (Ptr a) memory h = Inr ?h"
    using Suc.prems len by (simp add: refine_code_suggestion_live)
  have "run (replicate n (refine_code_suggestion (Ptr a) memory)) ?h =
     Inr (if n = 0 then ?h
          else ?h\<lparr>workbenches := (workbenches ?h)(a \<mapsto>
                 ?w\<lparr>suggested_code :=
                      Some (concat (replicate n refinement_marker) @ refinement_marker @ s)\<rparr>)\<rparr>)"
    using Suc.prems by (intro Suc.IH) (simp_all add: length_refinement_marker)
  then show ?case
    by (simp add: step concat_replicate_commute)
qed

subsection \<open>A session\<close>

lemma orchestrate_coding_session_live:
  assumes "workbenches h a = Some w" "code_request w = Some r"
  shows "orchestrate_coding_session (Ptr a) memory h =
     Inr (h\<lparr>workbenches := (workbenches h)(a := None),
            stdout := stdout h @ session_output r\<rparr>)"
  using assms
  by (simp add: orchestrate_coding_session_def session_body_def with_workbench_def
      process_code_request_def generate_code_suggestion_live refine_code_suggestion_live
      length_suggestion_template printf0_def printf1_def printf2_def
      commit_code_to_blockchain_def free_workbench_def session_output_def commit_output_def)

lemma run_session_result:
  "run_session request memory h =
     Inr (h\<lparr>workbenches := (workbenches h)(next_addr h := None),
            next_addr := Suc (next_addr h),
            stdout := stdout h @ session_output request\<rparr>)"
  by (simp add: run_session_def init_code_workbench_def orchestrate_coding_session_live)

text \<open>\<^verbatim>\<open>main\<close> itself runs one session on a memory it never adds to, and returns 0.\<close>

lemma main_returns:
  "main h =
     Inr (0, h\<lparr>workbenches := (workbenches h)(Suc (next_addr h) := None),
               next_addr := Suc (Suc (next_addr h)),
               stdout := stdout h @ session_output ''Create a function to sort an array'',
               memories := (memories h)(next_addr h := None)\<rparr>)"
  by (simp add: main_def new_code_memory_def run_session_result free_code_memory_def
      memory_at_def)

lemma spec_RunSession_result:
  "spec_RunSession request memory h =
     Inr (h\<lparr>workbenches := (workbenches h)(next_addr h := None),
            next_addr := Suc (next_addr h),
            stdout := stdout h @
              [commit_output ''Final Suggestion'' (refinement_marker @ suggestion_template)]\<rparr>)"
  by (simp add: spec_RunSession_def init_code_workbench_def generate_code_suggestion_live
      refine_code_suggestion_live length_suggestion_template suggested_code_of_def
      commit_code_to_blockchain_def printf2_def free_workbench_def commit_output_def)

lemma session_commits:
  "filter is_commit_output (session_output request) =
     [commit_output ''Final Suggestion'' (refinement_marker @ suggestion_template)]"
  by (simp add: session_output_def commit_output_def is_commit_output_def)

lemma session_refined_suggestion:
  "(case init_code_workbench (Some request) h of
      Inl e \<Rightarrow> Inl e
    | Inr (w, h1) \<Rightarrow>
        (case run (take 4 (session_body w memory)) h1 of
           Inl e \<Rightarrow> Inl e
         | Inr h3 \<Rightarrow> suggested_code_of h3 w)) =
   Inr (Some (refinement_marker @ suggestion_template))"
  by (simp add: init_code_workbench_def session_body_def with_workbench_def
      process_code_request_def generate_code_suggestion_live refine_code_suggestion_live
      length_suggestion_template printf1_def suggested_code_of_def)

text \<open>
  \<^bold>\<open>C1.\<close> For every request and every memory pointer, on any storage, a session returns,
  and what it leaves is the storage it started on with one address used up, no workbench
  at that address, and five texts printed after the earlier ones, in this order: the
  request (the workbench was created from it), the generated suggestion, the refined
  suggestion, the commit of the refined suggestion under the description ``Final
  Suggestion'', and the end of the session. After the fourth statement of the session
  the workbench holds the refined suggestion, which is the code the commit prints. Exactly
  one of the five texts is printed by \<^verbatim>\<open>commit_code_to_blockchain\<close>. Apart from the four
  progress messages the session leaves what the specification's five steps, run once
  each in their order, leave.
\<close>

theorem session_runs_the_five_steps_once:
  "run_session request memory h =
     Inr (h\<lparr>workbenches := (workbenches h)(next_addr h := None),
            next_addr := Suc (next_addr h),
            stdout := stdout h @ session_output request\<rparr>) \<and>
   (case init_code_workbench (Some request) h of
      Inl e \<Rightarrow> Inl e
    | Inr (w, h1) \<Rightarrow>
        (case run (take 4 (session_body w memory)) h1 of
           Inl e \<Rightarrow> Inl e
         | Inr h3 \<Rightarrow> suggested_code_of h3 w)) =
     Inr (Some (refinement_marker @ suggestion_template)) \<and>
   filter is_commit_output (session_output request) =
     [commit_output ''Final Suggestion'' (refinement_marker @ suggestion_template)] \<and>
   spec_RunSession request memory h =
     Inr (h\<lparr>workbenches := (workbenches h)(next_addr h := None),
            next_addr := Suc (next_addr h),
            stdout := stdout h @
              [commit_output ''Final Suggestion'' (refinement_marker @ suggestion_template)]\<rparr>)"
  by (intro conjI run_session_result session_refined_suggestion session_commits
      spec_RunSession_result)

subsection \<open>The session and the pattern stores\<close>

lemma put_workbench_store_part:
  "put_workbench w x h = Inr h' \<Longrightarrow> store_part h' = store_part h"
  by (auto simp: put_workbench_def store_part_def split: ptr.splits option.splits)

lemma update_code_suggestion_store_part:
  "update_code_suggestion w s h = Inr h' \<Longrightarrow> store_part h' = store_part h"
  by (auto simp: update_code_suggestion_def split: sum.splits option.splits
      dest: put_workbench_store_part)

lemma commit_code_change_store_part:
  "commit_code_change w c h = Inr h' \<Longrightarrow> store_part h' = store_part h"
  by (auto simp: commit_code_change_def split: sum.splits option.splits
      dest: put_workbench_store_part)

lemma generate_code_suggestion_store_part:
  "generate_code_suggestion w memory h = Inr h' \<Longrightarrow> store_part h' = store_part h"
  by (auto simp: generate_code_suggestion_def split: sum.splits
      dest: update_code_suggestion_store_part)

lemma refine_code_suggestion_store_part:
  "refine_code_suggestion w memory h = Inr h' \<Longrightarrow> store_part h' = store_part h"
  by (auto simp: refine_code_suggestion_def split: sum.splits
      dest: update_code_suggestion_store_part)

lemma commit_code_to_blockchain_store_part:
  "commit_code_to_blockchain code description h = Inr h' \<Longrightarrow> store_part h' = store_part h"
  by (auto simp: commit_code_to_blockchain_def printf2_def store_part_def split: option.splits)

lemma init_code_workbench_store_part:
  "init_code_workbench request h = Inr (w, h') \<Longrightarrow> store_part h' = store_part h"
  by (auto simp: init_code_workbench_def store_part_def split: option.splits)

text \<open>
  \<^bold>\<open>C4.\<close> For every request and every memory pointer, on any storage, the session
  returns and leaves every pattern, every block of pattern pointers and every memory
  structure (so every count and capacity) as it found them. The same holds for each
  function the pipeline is made of, whenever it returns: creating the workbench,
  generating, refining, updating the suggestion, committing a change and committing to
  the blockchain.
\<close>

theorem session_leaves_stores_unchanged:
  "(\<exists>h'. run_session request memory h = Inr h' \<and> store_part h' = store_part h) \<and>
   (\<forall>r w h'. init_code_workbench r h = Inr (w, h') \<longrightarrow> store_part h' = store_part h) \<and>
   (\<forall>w h'. generate_code_suggestion w memory h = Inr h' \<longrightarrow> store_part h' = store_part h) \<and>
   (\<forall>w h'. process_code_request w memory h = Inr h' \<longrightarrow> store_part h' = store_part h) \<and>
   (\<forall>w h'. refine_code_suggestion w memory h = Inr h' \<longrightarrow> store_part h' = store_part h) \<and>
   (\<forall>w s h'. update_code_suggestion w s h = Inr h' \<longrightarrow> store_part h' = store_part h) \<and>
   (\<forall>w c h'. commit_code_change w c h = Inr h' \<longrightarrow> store_part h' = store_part h) \<and>
   (\<forall>c d h'. commit_code_to_blockchain c d h = Inr h' \<longrightarrow> store_part h' = store_part h)"
proof -
  have "\<exists>h'. run_session request memory h = Inr h' \<and> store_part h' = store_part h"
    by (simp add: run_session_result store_part_def)
  then show ?thesis
    using init_code_workbench_store_part [of _ h] generate_code_suggestion_store_part [of _ memory h]
      refine_code_suggestion_store_part [of _ memory h] update_code_suggestion_store_part [of _ _ h]
      commit_code_change_store_part [of _ _ h] commit_code_to_blockchain_store_part [of _ _ h]
    unfolding process_code_request_def by blast
qed

theorem session_leaves_stores_unchanged_witness:
  "(\<exists>h'. run_session ''sort an array'' (Ptr 0) (store_heap 2) = Inr h' \<and>
         store_part h' = store_part (store_heap 2)) \<and>
   generate_code_suggestion (Ptr 0) (Ptr 0) (workbench_heap (fresh_workbench ''sort an array'')) =
     Inr (workbench_heap
            ((fresh_workbench ''sort an array'')\<lparr>suggested_code := Some suggestion_template\<rparr>)) \<and>
   store_part (workbench_heap
            ((fresh_workbench ''sort an array'')\<lparr>suggested_code := Some suggestion_template\<rparr>)) =
     store_part (workbench_heap (fresh_workbench ''sort an array''))"
proof -
  let ?h = "workbench_heap (fresh_workbench ''sort an array'')"
  let ?h' = "workbench_heap
            ((fresh_workbench ''sort an array'')\<lparr>suggested_code := Some suggestion_template\<rparr>)"
  have gen: "generate_code_suggestion (Ptr 0) (Ptr 0) ?h = Inr ?h'"
    by (simp add: generate_code_suggestion_live workbench_heap_def empty_heap_def)
  have "\<exists>h'. run_session ''sort an array'' (Ptr 0) (store_heap 2) = Inr h' \<and>
         store_part h' = store_part (store_heap 2)"
    using session_leaves_stores_unchanged [of "''sort an array''" "Ptr 0" "store_heap 2"]
    by (rule conjunct1)
  moreover have "store_part ?h' = store_part ?h"
    using session_leaves_stores_unchanged [of "''sort an array''" "Ptr 0" ?h] gen by blast
  ultimately show ?thesis
    using gen by (intro conjI)
qed

subsection \<open>The current code of a workbench\<close>

text \<open>
  \<^bold>\<open>C8.\<close> On a live workbench, \<^verbatim>\<open>commit_code_change\<close> returns. When the current code is
  absent (\<^verbatim>\<open>NULL\<close>, as on a fresh workbench) it becomes the given text, otherwise the given
  text is put after the current code with nothing between; a second call puts its text
  after the first, so from an absent current code the texts \<open>a\<close> and \<open>b\<close> leave \<open>a @ b\<close>.
\<close>

theorem commit_code_change_concatenates:
  assumes "current_code_of h workbench = Inr cur"
  shows "\<exists>h1. commit_code_change workbench (Some a) h = Inr h1 \<and>
           current_code_of h1 workbench =
             Inr (Some (case cur of None \<Rightarrow> a | Some t \<Rightarrow> t @ a)) \<and>
           (\<exists>h2. commit_code_change workbench (Some b) h1 = Inr h2 \<and>
              current_code_of h2 workbench =
                Inr (Some (case cur of None \<Rightarrow> a @ b | Some t \<Rightarrow> t @ a @ b)))"
proof -
  obtain p w where "workbench = Ptr p" "workbenches h p = Some w" "current_code w = cur"
    using current_code_of_InrD [OF assms] by blast
  then show ?thesis
    by (simp add: commit_code_change_live current_code_of_def split: option.splits)
qed

theorem commit_code_change_concatenates_witness:
  "current_code_of (workbench_heap (fresh_workbench ''r'')) (Ptr 0) = Inr None \<and>
   (\<exists>h1. commit_code_change (Ptr 0) (Some ''a'') (workbench_heap (fresh_workbench ''r'')) = Inr h1 \<and>
      current_code_of h1 (Ptr 0) = Inr (Some ''a'') \<and>
      (\<exists>h2. commit_code_change (Ptr 0) (Some ''b'') h1 = Inr h2 \<and>
         current_code_of h2 (Ptr 0) = Inr (Some ''ab'')))"
proof -
  have cur: "current_code_of (workbench_heap (fresh_workbench ''r'')) (Ptr 0) = Inr None"
    by (simp add: current_code_of_def workbench_heap_def fresh_workbench_def)
  show ?thesis
    using cur commit_code_change_concatenates [OF cur, of "''a''" "''b''"] by simp
qed

text \<open>
  \<^bold>\<open>C10.\<close> For every request and memory pointer, on any storage: the workbench of the
  session is created with no current code, and before each of the eight statements of
  \<^verbatim>\<open>orchestrate_coding_session\<close> (so from the creation, through generation, refinement
  and commit, up to the statement that releases the workbench) the workbench is live and
  its current code is still absent. The states meant are those the session goes
  through: the session is the rest of the statements run from each of them.
\<close>

theorem session_keeps_current_code_absent:
  assumes "k \<le> 7"
  shows "\<exists>h1 hk. init_code_workbench (Some request) h = Inr (Ptr (next_addr h), h1) \<and>
           run (take k (session_body (Ptr (next_addr h)) memory)) h1 = Inr hk \<and>
           current_code_of hk (Ptr (next_addr h)) = Inr None \<and>
           run_session request memory h =
             run (drop k (session_body (Ptr (next_addr h)) memory)) hk"
proof -
  let ?w = "Ptr (next_addr h)"
  let ?h1 = "h\<lparr>workbenches := (workbenches h)(next_addr h \<mapsto>
                    \<lparr>code_request = Some request, current_code = None, suggested_code = None\<rparr>),
                 next_addr := Suc (next_addr h)\<rparr>"
  have init: "init_code_workbench (Some request) h = Inr (?w, ?h1)"
    by (simp add: init_code_workbench_def)
  have split: "run_session request memory h =
      (case run (take k (session_body ?w memory)) ?h1 of
         Inl e \<Rightarrow> Inl e
       | Inr hk \<Rightarrow> run (drop k (session_body ?w memory)) hk)"
    by (simp add: run_session_def init orchestrate_coding_session_def flip: run_append)
  from assms consider "k = 0" | "k = 1" | "k = 2" | "k = 3" | "k = 4" | "k = 5" | "k = 6" | "k = 7"
    by linarith
  then have "\<exists>hk. run (take k (session_body ?w memory)) ?h1 = Inr hk \<and>
      current_code_of hk ?w = Inr None"
    by cases
      (simp_all add: session_body_def with_workbench_def
        process_code_request_def generate_code_suggestion_live refine_code_suggestion_live
        length_suggestion_template printf0_def printf1_def printf2_def
        commit_code_to_blockchain_def current_code_of_def)
  then show ?thesis using init split by auto
qed

theorem session_keeps_current_code_absent_witness:
  "(7::nat) \<le> 7 \<and>
   (\<exists>h1 hk. init_code_workbench (Some ''sort an array'') empty_heap = Inr (Ptr 0, h1) \<and>
      run (take 7 (session_body (Ptr 0) Null)) h1 = Inr hk \<and>
      current_code_of hk (Ptr 0) = Inr None \<and>
      run_session ''sort an array'' Null empty_heap = run (drop 7 (session_body (Ptr 0) Null)) hk)"
proof -
  have "next_addr empty_heap = 0"
    by (simp add: empty_heap_def)
  then show ?thesis
    using session_keeps_current_code_absent [of 7 "''sort an array''" empty_heap Null]
    by simp
qed

subsection \<open>Generation\<close>

text \<open>
  \<^bold>\<open>C5\<close>, as the code has it. On a live workbench, with any memory pointer,
  \<^verbatim>\<open>generate_code_suggestion\<close> returns; what it does is the call of
  \<^verbatim>\<open>update_code_suggestion\<close> with one fixed text, which is not empty, and afterwards
  the suggested code of the workbench is that text. The text is the same for every
  request and every store: the function reads neither.
\<close>

theorem generate_writes_the_fixed_template:
  assumes "workbench_at h workbench = Inr w"
  shows "generate_code_suggestion workbench memory h =
           update_code_suggestion workbench (Some suggestion_template) h \<and>
         (\<exists>h'. generate_code_suggestion workbench memory h = Inr h' \<and>
            suggested_code_of h' workbench = Inr (Some suggestion_template)) \<and>
         suggestion_template \<noteq> []"
proof -
  obtain a where "workbench = Ptr a" "workbenches h a = Some w"
    using workbench_at_InrD [OF assms] by blast
  then show ?thesis
    by (simp add: generate_code_suggestion_live update_code_suggestion_live suggested_code_of_def)
      (simp add: suggestion_template_def)
qed

theorem generate_writes_the_fixed_template_witness:
  "workbench_at (workbench_heap (fresh_workbench ''sort an array'')) (Ptr 0) =
     Inr (fresh_workbench ''sort an array'') \<and>
   (\<exists>h'. generate_code_suggestion (Ptr 0) Null (workbench_heap (fresh_workbench ''sort an array'')) =
      Inr h' \<and> suggested_code_of h' (Ptr 0) = Inr (Some suggestion_template))"
proof -
  have live: "workbench_at (workbench_heap (fresh_workbench ''sort an array'')) (Ptr 0) =
     Inr (fresh_workbench ''sort an array'')"
    by (simp add: workbench_heap_def)
  have "\<exists>h'. generate_code_suggestion (Ptr 0) Null
           (workbench_heap (fresh_workbench ''sort an array'')) = Inr h' \<and>
         suggested_code_of h' (Ptr 0) = Inr (Some suggestion_template)"
    using generate_writes_the_fixed_template [OF live, of Null] by (elim conjE)
  then show ?thesis
    using live by (intro conjI)
qed

text \<open>
  \<^bold>\<open>C5\<close>, as the claim has it, fails: the text is not derived from the request. A
  workbench for ``sort an array'' and one for ``reverse a linked list'' receive the same
  text, and the request ``sort an array'' does not occur in it.
\<close>

theorem generate_ignores_the_request_counterexample:
  "generated_for ''sort an array'' = Inr (Some suggestion_template) \<and>
   generated_for ''reverse a linked list'' = generated_for ''sort an array'' \<and>
   \<not> sublist ''sort an array'' suggestion_template"
  by (simp add: generated_for_def generate_code_suggestion_live workbench_heap_def
      suggested_code_of_def)
    (simp add: suggestion_template_def sublist_Cons_right)

subsection \<open>Refinement\<close>

text \<open>
  \<^bold>\<open>C3.\<close> The code at inputs where it does not do what the claim says. A workbench whose
  suggestion has 999 bytes: the marker, the suggestion and the terminating zero are 1025
  bytes, one more than the array \<^verbatim>\<open>refined\<close> has, and \<^verbatim>\<open>strcat\<close> writes past its end. A
  workbench after generation: 38 calls of \<^verbatim>\<open>refine_code_suggestion\<close> nest the marker 38
  times, and the 39th call writes past the end of the array.
\<close>

theorem refine_overflows_its_buffer:
  "refine_code_suggestion (Ptr 0) Null
     (workbench_heap ((fresh_workbench ''r'')\<lparr>suggested_code := Some (replicate 999 CHR ''a'')\<rparr>)) =
     Inl BufferOverflow \<and>
   run (replicate 38 (refine_code_suggestion (Ptr 0) Null))
     (workbench_heap ((fresh_workbench ''r'')\<lparr>suggested_code := Some suggestion_template\<rparr>)) =
     Inr (workbench_heap ((fresh_workbench ''r'')\<lparr>suggested_code :=
            Some (concat (replicate 38 refinement_marker) @ suggestion_template)\<rparr>)) \<and>
   run (replicate 39 (refine_code_suggestion (Ptr 0) Null))
     (workbench_heap ((fresh_workbench ''r'')\<lparr>suggested_code := Some suggestion_template\<rparr>)) =
     Inl BufferOverflow"
proof -
  let ?f = "refine_code_suggestion (Ptr 0) Null :: real heap \<Rightarrow> fault + real heap"
  let ?w = "(fresh_workbench ''r'')\<lparr>suggested_code := Some suggestion_template\<rparr>"
  let ?w38 = "(fresh_workbench ''r'')\<lparr>suggested_code :=
            Some (concat (replicate 38 refinement_marker) @ suggestion_template)\<rparr>"
  have one: "refine_code_suggestion (Ptr 0) Null
     (workbench_heap ((fresh_workbench ''r'')\<lparr>suggested_code := Some (replicate 999 CHR ''a'')\<rparr>)) =
     Inl BufferOverflow"
    by (rule refine_code_suggestion_overflow [where s = "replicate 999 CHR ''a''"
          and w = "(fresh_workbench ''r'')\<lparr>suggested_code := Some (replicate 999 CHR ''a'')\<rparr>"])
      (simp_all add: workbench_heap_def)
  have r38: "run (replicate 38 ?f) (workbench_heap ?w) = Inr (workbench_heap ?w38)"
    using refine_many [of "workbench_heap ?w" 0 ?w suggestion_template 38 Null]
    by (simp add: workbench_heap_def length_suggestion_template)
  have "length (concat (replicate 38 refinement_marker) @ suggestion_template) = 1023"
    by (simp add: length_concat length_suggestion_template length_refinement_marker sum_list_replicate)
  then have last: "?f (workbench_heap ?w38) = Inl BufferOverflow"
    by (intro refine_code_suggestion_overflow
        [where s = "concat (replicate 38 refinement_marker) @ suggestion_template" and w = ?w38])
      (simp_all add: workbench_heap_def)
  have "replicate 39 ?f = replicate (38 + 1) ?f"
    by simp
  also have "\<dots> = replicate 38 ?f @ replicate 1 ?f"
    by (rule replicate_add)
  also have "\<dots> = replicate 38 ?f @ [?f]"
    by simp
  finally have "run (replicate 39 ?f) (workbench_heap ?w) = Inl BufferOverflow"
    by (simp only: run_append r38 sum.case run.simps last)
  then show ?thesis
    using one r38 by (intro conjI)
qed

subsection \<open>After the session\<close>

text \<open>
  \<^bold>\<open>C6\<close>, as the code has it. For every request and memory pointer, on any storage, the
  session returns and its workbench is released: no live object is at its address. The
  code has no check for this and no error of the kind: each function that is handed the
  released workbench reads through the dangling pointer first, which is undefined
  behaviour, and none of them returns anything.
\<close>

theorem closed_workbench_is_released:
  "\<exists>h'. run_session request memory h = Inr h' \<and>
      workbenches h' (next_addr h) = None \<and>
      update_code_suggestion (Ptr (next_addr h)) s h' = Inl Dangling \<and>
      commit_code_change (Ptr (next_addr h)) c h' = Inl Dangling \<and>
      process_code_request (Ptr (next_addr h)) memory h' = Inl Dangling \<and>
      generate_code_suggestion (Ptr (next_addr h)) memory h' = Inl Dangling \<and>
      refine_code_suggestion (Ptr (next_addr h)) memory h' = Inl Dangling \<and>
      orchestrate_coding_session (Ptr (next_addr h)) memory h' = Inl Dangling"
  by (simp add: run_session_result update_code_suggestion_def commit_code_change_def
      process_code_request_def generate_code_suggestion_def refine_code_suggestion_def
      orchestrate_coding_session_def session_body_def with_workbench_def strcat_into_def)

text \<open>
  \<^bold>\<open>C6\<close>, as the claim has it, fails: after the session for ``sort an array'',
  \<^verbatim>\<open>update_code_suggestion\<close> on the closed workbench is not rejected with an error of the
  program. It dereferences the released pointer.
\<close>

theorem closed_workbench_counterexample:
  "run_session ''sort an array'' Null empty_heap = Inr session_end_heap \<and>
   update_code_suggestion (Ptr 0) (Some ''x'') session_end_heap = Inl Dangling"
  by (simp add: run_session_result empty_heap_def session_end_heap_def update_code_suggestion_def)

subsection \<open>Stores\<close>

lemma is_storeD:
  assumes "is_store h memory cap xs"
  obtains a m b slots where "memory = Ptr a" "memories h a = Some m" "patterns m = Ptr b"
    "arrays h b = Some slots" "capacity m = cap" "int (length slots) = cap" "1 \<le> cap"
    "cap \<le> INT_MAX" "count m = int (length xs)" "length xs \<le> length slots"
    "take (length xs) slots = map Some xs"
proof -
  obtain a where a: "memory = Ptr a"
    using assms by (cases memory) (simp_all add: is_store_def)
  obtain m where m: "memories h a = Some m"
    using assms a by (cases "memories h a") (simp_all add: is_store_def)
  obtain b where b: "patterns m = Ptr b"
    using assms a m by (cases "patterns m") (simp_all add: is_store_def)
  obtain slots where s: "arrays h b = Some slots"
    using assms a m b by (cases "arrays h b") (simp_all add: is_store_def)
  show thesis
    using assms a m b s by (intro that [of a m b slots]) (simp_all add: is_store_def)
qed

lemma is_storeI:
  assumes "memories h a = Some m" "patterns m = Ptr b"
    "arrays h b = Some slots" "capacity m = cap" "int (length slots) = cap" "1 \<le> cap"
    "cap \<le> INT_MAX" "count m = int (length xs)" "length xs \<le> length slots"
    "take (length xs) slots = map Some xs"
  shows "is_store h (Ptr a) cap xs"
  using assms by (simp add: is_store_def)

lemma add_pattern_to_memory_room:
  assumes "is_store h memory cap xs" "int (length xs) < cap"
  shows "\<exists>h'. add_pattern_to_memory memory p h = Inr h' \<and> is_store h' memory cap (xs @ [p]) \<and>
           pattern_objs h' = pattern_objs h"
proof -
  from assms(1) obtain a m b slots where f: "memory = Ptr a" "memories h a = Some m" "patterns m = Ptr b"
    "arrays h b = Some slots" "capacity m = cap" "int (length slots) = cap" "1 \<le> cap"
    "cap \<le> INT_MAX" "count m = int (length xs)" "length xs \<le> length slots"
    "take (length xs) slots = map Some xs"
    by (rule is_storeD)
  let ?h = "h\<lparr>arrays := (arrays h)(b \<mapsto> slots[length xs := Some p]),
              memories := (memories h)(a \<mapsto> m\<lparr>count := count m + 1\<rparr>)\<rparr>"
  have lt: "length xs < length slots" using assms(2) f by linarith
  have "add_pattern_to_memory memory p h = Inr ?h"
    using f assms(2) lt
    by (simp add: add_pattern_to_memory_def memory_at_def array_at_def put_array_def
        put_memory_def INT_MAX_def)
  moreover have "is_store ?h memory cap (xs @ [p])"
    unfolding f(1)
  proof (rule is_storeI [where m = "m\<lparr>count := count m + 1\<rparr>" and b = b
          and slots = "slots[length xs := Some p]"])
    show "take (length (xs @ [p])) (slots[length xs := Some p]) = map Some (xs @ [p])"
      using lt f(11) by (simp add: take_Suc_conv_app_nth)
  qed (use f lt in simp_all)
  ultimately show ?thesis by simp
qed

lemma add_pattern_to_memory_full:
  assumes "is_store h memory cap xs" "int (length xs) = cap" "2 * cap \<le> INT_MAX"
  shows "\<exists>h'. add_pattern_to_memory memory p h = Inr h' \<and> is_store h' memory (2 * cap) (xs @ [p]) \<and>
           pattern_objs h' = pattern_objs h"
proof -
  from assms(1) obtain a m b slots where f: "memory = Ptr a" "memories h a = Some m" "patterns m = Ptr b"
    "arrays h b = Some slots" "capacity m = cap" "int (length slots) = cap" "1 \<le> cap"
    "cap \<le> INT_MAX" "count m = int (length xs)" "length xs \<le> length slots"
    "take (length xs) slots = map Some xs"
    by (rule is_storeD)
  have len: "length slots = length xs" using assms(2) f by linarith
  then have slots: "slots = map Some xs" using f(11) by simp
  have pos: "0 < length xs" using f(7) assms(2) by linarith
  let ?slots = "(slots @ replicate (length xs) None)[length xs := Some p]"
  let ?m = "m\<lparr>capacity := 2 * cap, patterns := Ptr (next_addr h), count := count m + 1\<rparr>"
  let ?h = "h\<lparr>arrays := ((arrays h)(b := None))(next_addr h \<mapsto> ?slots),
              next_addr := Suc (next_addr h),
              memories := (memories h)(a \<mapsto> ?m)\<rparr>"
  have n: "nat (cap * 2) - length xs = length xs" "nat cap = length xs" "\<not> cap \<le> 0"
    using f assms(2) by simp_all
  have "add_pattern_to_memory memory p h = Inr ?h"
    using f assms len pos
    by (simp add: add_pattern_to_memory_def memory_at_def array_at_def put_array_def
        put_memory_def realloc_patterns_def INT_MAX_def INT_MIN_def n mult.commute)
  moreover have "is_store ?h memory (2 * cap) (xs @ [p])"
    unfolding f(1)
  proof (rule is_storeI [where m = ?m and b = "next_addr h" and slots = ?slots])
    show "take (length (xs @ [p])) ?slots = map Some (xs @ [p])"
      using pos by (simp add: slots list_update_append take_Suc_conv_app_nth nth_append)
  qed (use f len assms in simp_all)
  ultimately show ?thesis by simp
qed

lemma add_pattern_to_memory_overflow:
  assumes "is_store h memory cap xs" "int (length xs) = cap" "INT_MAX < 2 * cap"
  shows "add_pattern_to_memory memory p h = Inl SignedOverflow"
proof -
  from assms(1) obtain a m b slots where f: "memory = Ptr a" "memories h a = Some m" "patterns m = Ptr b"
    "arrays h b = Some slots" "capacity m = cap" "int (length slots) = cap" "1 \<le> cap"
    "cap \<le> INT_MAX" "count m = int (length xs)" "length xs \<le> length slots"
    "take (length xs) slots = map Some xs"
    by (rule is_storeD)
  show ?thesis
    using f assms
    by (simp add: add_pattern_to_memory_def memory_at_def mult.commute)
qed

lemma collect_map_Inr: "collect (map Inr xs) = Inr xs"
  by (induction xs) simp_all

lemma is_store_iterate:
  assumes "is_store h memory cap xs"
  shows "iterate_patterns h memory = Inr xs"
proof -
  from assms obtain a m b slots where f: "memory = Ptr a" "memories h a = Some m" "patterns m = Ptr b"
    "arrays h b = Some slots" "capacity m = cap" "int (length slots) = cap" "1 \<le> cap"
    "cap \<le> INT_MAX" "count m = int (length xs)" "length xs \<le> length slots"
    "take (length xs) slots = map Some xs"
    by (rule is_storeD)
  have nth: "slots ! i = Some (xs ! i)" if "i < length xs" for i
  proof -
    have "slots ! i = take (length xs) slots ! i" using that by simp
    then show ?thesis using that by (simp add: f(11))
  qed
  have slot: "read_slot h memory i = Inr (xs ! i)" if "i < length xs" for i
    using that f(10) by (simp add: read_slot_def memory_at_def array_at_def f(1-4) nth)
  have "map (read_slot h memory) [0 ..< length xs] = map Inr xs"
    by (rule nth_equalityI) (simp_all add: slot)
  moreover have "memory_at h memory = Inr m" "nat (count m) = length xs"
    by (simp_all add: memory_at_def f(1,2,9))
  ultimately show ?thesis
    by (simp add: iterate_patterns_def collect_map_Inr)
qed

lemma is_store_count: "is_store h memory cap xs \<Longrightarrow> count_of h memory = Inr (int (length xs))"
  by (erule is_storeD) (simp add: count_of_def memory_at_def)

lemma is_store_capacity: "is_store h memory cap xs \<Longrightarrow> capacity_of h memory = Inr cap"
  by (erule is_storeD) (simp add: capacity_of_def memory_at_def)

lemma add_patterns_room:
  "is_store h memory cap xs \<Longrightarrow> int (length xs) + int (length ps) \<le> cap \<Longrightarrow>
   \<exists>h'. run (map (add_pattern_to_memory memory) ps) h = Inr h' \<and>
        is_store h' memory cap (xs @ ps) \<and> pattern_objs h' = pattern_objs h"
proof (induction ps arbitrary: h xs)
  case Nil
  then show ?case by simp
next
  case (Cons p ps)
  from Cons.prems obtain h1 where h1: "add_pattern_to_memory memory p h = Inr h1"
    "is_store h1 memory cap (xs @ [p])" "pattern_objs h1 = pattern_objs h"
    using add_pattern_to_memory_room [of h memory cap xs p] by auto
  from Cons.IH [OF h1(2)] Cons.prems(2) obtain h' where
    "run (map (add_pattern_to_memory memory) ps) h1 = Inr h'"
    "is_store h' memory cap ((xs @ [p]) @ ps)" "pattern_objs h' = pattern_objs h1"
    by auto
  then show ?case using h1 by simp
qed

lemma add_patterns_grow:
  "is_store h memory cap xs \<Longrightarrow> int (length xs) + int (length ps) \<le> 1073741824 \<Longrightarrow>
   \<exists>h' cap'. run (map (add_pattern_to_memory memory) ps) h = Inr h' \<and>
        is_store h' memory cap' (xs @ ps) \<and> pattern_objs h' = pattern_objs h"
proof (induction ps arbitrary: h xs cap)
  case Nil
  then show ?case by auto
next
  case (Cons p ps)
  have le: "int (length xs) \<le> cap"
    using Cons.prems(1) by (rule is_storeD) simp
  have "\<exists>h1 cap1. add_pattern_to_memory memory p h = Inr h1 \<and>
      is_store h1 memory cap1 (xs @ [p]) \<and> pattern_objs h1 = pattern_objs h"
  proof (cases "int (length xs) < cap")
    case True
    then show ?thesis using add_pattern_to_memory_room [OF Cons.prems(1), of p] by blast
  next
    case False
    then have "int (length xs) = cap" "2 * cap \<le> INT_MAX"
      using le Cons.prems(2) by (simp_all add: INT_MAX_def)
    then show ?thesis using add_pattern_to_memory_full [OF Cons.prems(1), of p] by blast
  qed
  then obtain h1 cap1 where h1: "add_pattern_to_memory memory p h = Inr h1"
    "is_store h1 memory cap1 (xs @ [p])" "pattern_objs h1 = pattern_objs h"
    by blast
  from Cons.IH [OF h1(2)] Cons.prems(2) obtain h' cap' where
    "run (map (add_pattern_to_memory memory) ps) h1 = Inr h'"
    "is_store h' memory cap' ((xs @ [p]) @ ps)" "pattern_objs h' = pattern_objs h1"
    by auto
  then show ?case using h1 by auto
qed

lemma is_store_frame:
  assumes "is_store h memory cap xs" "memories h' = memories h" "arrays h' = arrays h"
  shows "is_store h' memory cap xs"
proof -
  from assms(1) obtain a m b slots where f: "memory = Ptr a" "memories h a = Some m" "patterns m = Ptr b"
    "arrays h b = Some slots" "capacity m = cap" "int (length slots) = cap" "1 \<le> cap"
    "cap \<le> INT_MAX" "count m = int (length xs)" "length xs \<le> length slots"
    "take (length xs) slots = map Some xs"
    by (rule is_storeD)
  show ?thesis
    unfolding f(1)
    by (rule is_storeI [where m = m and b = b and slots = slots]) (simp_all add: assms(2,3) f)
qed

lemma analyze_code_complexity_store:
  fixes h :: "('d::{plus,one}) heap"
  assumes "is_store h memory cap xs" "pattern_at h q = Inr x"
  shows "\<exists>h'. analyze_code_complexity q h = Inr h' \<and> is_store h' memory cap xs \<and>
           dom (pattern_objs h') = dom (pattern_objs h)"
proof -
  obtain a where a: "q = Ptr a" "pattern_objs h a = Some x"
    using assms(2) by (auto simp: pattern_at_def split: ptr.splits option.splits)
  let ?h = "h\<lparr>pattern_objs := (pattern_objs h)(a \<mapsto> x\<lparr>complexity := complexity x + CODE_COMPLEXITY_FACTOR\<rparr>)\<rparr>"
  have 1: "analyze_code_complexity q h = Inr ?h"
    using a by (simp add: analyze_code_complexity_def pattern_at_def put_pattern_def)
  have 2: "is_store ?h memory cap xs"
    using assms(1) by (rule is_store_frame) simp_all
  have 3: "dom (pattern_objs ?h) = dom (pattern_objs h)"
    using a(2) by (simp add: insert_absorb domI)
  show ?thesis
    using 1 2 3 by (intro exI [of _ ?h] conjI)
qed


lemma is_store_capacity_ge_count:
  "is_store h memory cap xs \<Longrightarrow> capacity_ge_count h memory"
  by (erule is_storeD) (simp add: capacity_ge_count_def memory_at_def)

lemma add_pattern_to_memory_step:
  assumes "is_store h memory cap xs" "int (length xs) < cap \<or> 2 * cap \<le> INT_MAX"
  shows "\<exists>h'. add_pattern_to_memory memory p h = Inr h' \<and>
           is_store h' memory (if int (length xs) = cap then 2 * cap else cap) (xs @ [p]) \<and>
           pattern_objs h' = pattern_objs h"
proof (cases "int (length xs) < cap")
  case True
  then show ?thesis
    using add_pattern_to_memory_room [OF assms(1), of p] by simp
next
  case False
  have "int (length xs) \<le> cap"
    using assms(1) by (rule is_storeD) simp
  then have "int (length xs) = cap" "2 * cap \<le> INT_MAX"
    using False assms(2) by simp_all
  then show ?thesis
    using add_pattern_to_memory_full [OF assms(1), of p] by simp
qed

lemma apply_ops_store:
  fixes h :: "('d::{plus,one}) heap"
  shows "is_store h memory cap xs \<Longrightarrow>
    int (length xs) + int (length (adds_of ops)) \<le> 1073741824 \<Longrightarrow>
    (\<forall>q. AnalyzeComplexity q \<in> set ops \<longrightarrow> (\<exists>x. pattern_at h q = Inr x)) \<Longrightarrow>
    \<exists>h' cap'. run (map (apply_op memory) ops) h = Inr h' \<and>
      is_store h' memory cap' (xs @ adds_of ops)"
proof (induction ops arbitrary: h cap xs)
  case Nil
  then show ?case by auto
next
  case (Cons op ops)
  have live: "\<exists>x. pattern_at g q = Inr x"
    if "AnalyzeComplexity q \<in> set ops" "dom (pattern_objs g) = dom (pattern_objs h)"
    for g :: "'d heap" and q
  proof -
    have "AnalyzeComplexity q \<in> set (op # ops)"
      using that(1) by simp
    then obtain x where "pattern_at h q = Inr x"
      using Cons.prems(3) by blast
    then obtain a where "q = Ptr a" "a \<in> dom (pattern_objs h)"
      by (auto simp: pattern_at_def split: ptr.splits option.splits)
    then have "a \<in> dom (pattern_objs g)"
      using that(2) by simp
    then obtain y where "pattern_objs g a = Some y"
      by blast
    then show ?thesis
      using \<open>q = Ptr a\<close> by (simp add: pattern_at_def)
  qed
  show ?case
  proof (cases op)
    case (Add p)
    have "int (length xs) \<le> cap"
      using Cons.prems(1) by (rule is_storeD) simp
    then have "int (length xs) < cap \<or> 2 * cap \<le> INT_MAX"
      using Cons.prems(2) by (auto simp: Add INT_MAX_def)
    from add_pattern_to_memory_step [OF Cons.prems(1) this, of p] obtain h1 where
      h1: "add_pattern_to_memory memory p h = Inr h1"
      "is_store h1 memory (if int (length xs) = cap then 2 * cap else cap) (xs @ [p])"
      "pattern_objs h1 = pattern_objs h"
      by blast
    have "int (length (xs @ [p])) + int (length (adds_of ops)) \<le> 1073741824"
      using Cons.prems(2) by (simp add: Add)
    moreover have "\<forall>q. AnalyzeComplexity q \<in> set ops \<longrightarrow> (\<exists>x. pattern_at h1 q = Inr x)"
      using live h1(3) by simp
    ultimately obtain h' cap' where
      "run (map (apply_op memory) ops) h1 = Inr h'"
      "is_store h' memory cap' ((xs @ [p]) @ adds_of ops)"
      using Cons.IH [OF h1(2)] by blast
    then show ?thesis
      using h1(1) by (intro exI [of _ h'] exI [of _ cap']) (simp add: Add)
  next
    case (AnalyzeComplexity q)
    have "AnalyzeComplexity q \<in> set (op # ops)"
      by (simp add: AnalyzeComplexity)
    then obtain x where "pattern_at h q = Inr x"
      using Cons.prems(3) by blast
    from analyze_code_complexity_store [OF Cons.prems(1) this] obtain h1 where
      h1: "analyze_code_complexity q h = Inr h1" "is_store h1 memory cap xs"
      "dom (pattern_objs h1) = dom (pattern_objs h)"
      by blast
    have "int (length xs) + int (length (adds_of ops)) \<le> 1073741824"
      using Cons.prems(2) by (simp add: AnalyzeComplexity)
    moreover have "\<forall>q. AnalyzeComplexity q \<in> set ops \<longrightarrow> (\<exists>x. pattern_at h1 q = Inr x)"
      using live h1(3) by blast
    ultimately obtain h' cap' where
      "run (map (apply_op memory) ops) h1 = Inr h'" "is_store h' memory cap' (xs @ adds_of ops)"
      using Cons.IH [OF h1(2)] by blast
    then show ?thesis
      using h1(1) by (intro exI [of _ h'] exI [of _ cap']) (simp add: AnalyzeComplexity)
  qed
qed

text \<open>
  The memory that \<^verbatim>\<open>main\<close> sets up has a capacity of 10 and no block: it is not a store in
  the sense of \<open>is_store\<close>, and adding to it writes through \<^verbatim>\<open>NULL\<close>, as the first write
  is not preceded by a reallocation.
\<close>

lemma add_to_memory_of_main:
  "add_pattern_to_memory (fst (new_code_memory 10 h)) p (snd (new_code_memory 10 h)) =
     Inl NullDeref"
  by (simp add: new_code_memory_def add_pattern_to_memory_def memory_at_def array_at_def)

subsection \<open>Growth\<close>

text \<open>
  \<^bold>\<open>C2\<close>, as the code has it. Take a store with no pattern, a capacity \<open>C\<close> of at least 1
  and at most 1073741823 (so that \<open>2 * C\<close> is an \<^verbatim>\<open>int\<close>), and a block of \<open>C\<close> allocated
  slots. Adding \<open>C + 1\<close> patterns returns after each of them; after \<open>k\<close> of them the count
  is \<open>k\<close>, the patterns are the first \<open>k\<close> in the order they were added, and the capacity is
  still \<open>C\<close> while \<open>k \<le> C\<close> and exactly \<open>2 * C\<close> after all \<open>C + 1\<close>.
\<close>

theorem capacity_doubles_when_exhausted:
  assumes "is_store h memory C []" "C \<le> 1073741823" "length ps = nat C + 1" "k \<le> nat C + 1"
  shows "\<exists>hk. run (map (add_pattern_to_memory memory) (take k ps)) h = Inr hk \<and>
           count_of hk memory = Inr (int k) \<and>
           capacity_of hk memory = Inr (if k \<le> nat C then C else 2 * C) \<and>
           iterate_patterns hk memory = Inr (take k ps)"
proof (cases "k \<le> nat C")
  case True
  have "1 \<le> C" using assms(1) by (rule is_storeD)
  then have "int (length ([]::ptr list)) + int (length (take k ps)) \<le> C"
    using True assms(3) by simp
  from add_patterns_room [OF assms(1) this] obtain hk where
    hk: "run (map (add_pattern_to_memory memory) (take k ps)) h = Inr hk"
    "is_store hk memory C (take k ps)" by auto
  have "length (take k ps) = k" using True assms(3) by simp
  then show ?thesis
    using hk True is_store_count [OF hk(2)] is_store_capacity [OF hk(2)] is_store_iterate [OF hk(2)]
    by simp
next
  case False
  then have k: "k = nat C + 1" using assms(4) by simp
  have C: "1 \<le> C" using assms(1) by (rule is_storeD)
  let ?ys = "take (nat C) ps"
  let ?p = "ps ! nat C"
  have "take (Suc (nat C)) ps = ?ys @ [?p]"
    using assms(3) by (intro take_Suc_conv_app_nth) simp
  then have ps: "take k ps = ?ys @ [?p]"
    using k by simp
  have "int (length ([]::ptr list)) + int (length ?ys) \<le> C"
    using C assms(3) by simp
  from add_patterns_room [OF assms(1) this] obtain h1 where
    h1: "run (map (add_pattern_to_memory memory) ?ys) h = Inr h1"
    "is_store h1 memory C ?ys" by auto
  have "int (length ?ys) = C" using C assms(3) by simp
  moreover have "2 * C \<le> INT_MAX" using assms(2) by (simp add: INT_MAX_def)
  ultimately obtain h2 where h2: "add_pattern_to_memory memory ?p h1 = Inr h2"
    "is_store h2 memory (2 * C) (?ys @ [?p])"
    using add_pattern_to_memory_full [OF h1(2), of ?p] by auto
  have run: "run (map (add_pattern_to_memory memory) (take k ps)) h = Inr h2"
    by (simp add: ps run_append h1 h2)
  have len: "int (length (?ys @ [?p])) = int k" using k C assms(3) by simp
  have "count_of h2 memory = Inr (int k)"
    using is_store_count [OF h2(2)] by (simp only: len)
  moreover have "iterate_patterns h2 memory = Inr (take k ps)"
    using is_store_iterate [OF h2(2)] by (simp only: ps)
  moreover have "capacity_of h2 memory = Inr (if k \<le> nat C then C else 2 * C)"
    using is_store_capacity [OF h2(2)] False by simp
  ultimately show ?thesis
    using run by (intro exI [of _ h2] conjI)
qed

theorem capacity_doubles_when_exhausted_witness:
  "is_store (store_heap 2) (Ptr 0) 2 [] \<and>
   (\<exists>hk. run (map (add_pattern_to_memory (Ptr 0)) [Ptr 2, Ptr 2, Ptr 2]) (store_heap 2) = Inr hk \<and>
      count_of hk (Ptr 0) = Inr 3 \<and> capacity_of hk (Ptr 0) = Inr 4 \<and>
      iterate_patterns hk (Ptr 0) = Inr [Ptr 2, Ptr 2, Ptr 2])"
proof -
  have s: "is_store (store_heap 2) (Ptr 0) 2 []"
    by (simp add: is_store_def store_heap_def empty_heap_def INT_MAX_def)
  show ?thesis
    using s capacity_doubles_when_exhausted [OF s, of "[Ptr 2, Ptr 2, Ptr 2]" 3] by simp
qed

text \<open>
  \<^bold>\<open>C2\<close>, as the claim has it, fails at \<open>C = 1073741824\<close>: the first \<open>C\<close> patterns fill
  the block, and for the next one the capacity would become \<open>2147483648\<close>, which is no
  \<^verbatim>\<open>int\<close>.
\<close>

theorem capacity_doubling_overflows_counterexample:
  "run (map (add_pattern_to_memory (Ptr 0)) (replicate 1073741825 (Ptr 2)))
     (store_heap 1073741824) = Inl SignedOverflow"
proof -
  let ?add = "add_pattern_to_memory (Ptr 0) :: ptr \<Rightarrow> real heap \<Rightarrow> fault + real heap"
  have s: "is_store (store_heap 1073741824) (Ptr 0) 1073741824 []"
    by (simp add: is_store_def store_heap_def empty_heap_def INT_MAX_def)
  have "int (length ([]::ptr list)) + int (length (replicate 1073741824 (Ptr 2))) \<le> 1073741824"
    by simp
  from add_patterns_room [OF s this] obtain h1 where
    h1: "run (map ?add (replicate 1073741824 (Ptr 2))) (store_heap 1073741824) = Inr h1"
    "is_store h1 (Ptr 0) 1073741824 (replicate 1073741824 (Ptr 2))"
    by auto
  have last: "?add (Ptr 2) h1 = Inl SignedOverflow"
    by (rule add_pattern_to_memory_overflow [OF h1(2)]) (simp_all add: INT_MAX_def)
  have "replicate 1073741825 (Ptr 2) = replicate (1073741824 + 1) (Ptr 2)"
    by simp
  also have "\<dots> = replicate 1073741824 (Ptr 2) @ replicate 1 (Ptr 2)"
    by (rule replicate_add)
  also have "\<dots> = replicate 1073741824 (Ptr 2) @ [Ptr 2]"
    by simp
  finally have "map ?add (replicate 1073741825 (Ptr 2)) =
      map ?add (replicate 1073741824 (Ptr 2)) @ [?add (Ptr 2)]"
    by simp
  then show ?thesis
    by (simp only: run_append h1(1) sum.case run.simps last)
qed

subsection \<open>The invariant\<close>

text \<open>
  \<^bold>\<open>C7\<close>, as the code has it. Take a store whose block has as many allocated slots as its
  capacity says, with a capacity of at least 1 and a count between 0 and the capacity,
  the slots below the count holding the patterns that were stored. Its capacity is at
  least its count. Adding a pattern returns and leaves such a store again, with the
  capacity at least the count, provided the store is not full or twice its capacity is
  an \<^verbatim>\<open>int\<close>. Analysing a live pattern returns and leaves the store as it is. So does
  every sequence of the two operations that analyses live patterns only and leaves at
  most 1073741824 patterns in the store, however many analyses it has: the store then
  holds what it held, followed by the added patterns in the order of the calls.
\<close>

theorem capacity_at_least_count:
  fixes h :: "('d::{plus,one}) heap"
  assumes "is_store h memory cap xs"
  shows "capacity_ge_count h memory \<and>
    (int (length xs) < cap \<or> 2 * cap \<le> INT_MAX \<longrightarrow>
       (\<exists>h' cap'. add_pattern_to_memory memory p h = Inr h' \<and>
          is_store h' memory cap' (xs @ [p]) \<and> capacity_ge_count h' memory)) \<and>
    ((\<exists>x. pattern_at h q = Inr x) \<longrightarrow>
       (\<exists>h'. analyze_code_complexity q h = Inr h' \<and>
          is_store h' memory cap xs \<and> capacity_ge_count h' memory)) \<and>
    (int (length xs) + int (length (adds_of ops)) \<le> 1073741824 \<and>
     (\<forall>q. AnalyzeComplexity q \<in> set ops \<longrightarrow> (\<exists>x. pattern_at h q = Inr x)) \<longrightarrow>
       (\<exists>h' cap'. run (map (apply_op memory) ops) h = Inr h' \<and>
          is_store h' memory cap' (xs @ adds_of ops) \<and> capacity_ge_count h' memory))"
proof (intro conjI impI)
  show "capacity_ge_count h memory"
    using assms by (rule is_store_capacity_ge_count)
next
  assume "int (length xs) < cap \<or> 2 * cap \<le> INT_MAX"
  from add_pattern_to_memory_step [OF assms this, of p] obtain h' where
    "add_pattern_to_memory memory p h = Inr h'"
    "is_store h' memory (if int (length xs) = cap then 2 * cap else cap) (xs @ [p])"
    by blast
  then show "\<exists>h' cap'. add_pattern_to_memory memory p h = Inr h' \<and>
      is_store h' memory cap' (xs @ [p]) \<and> capacity_ge_count h' memory"
    using is_store_capacity_ge_count by blast
next
  assume "\<exists>x. pattern_at h q = Inr x"
  then obtain x where "pattern_at h q = Inr x" ..
  from analyze_code_complexity_store [OF assms this] obtain h' where
    "analyze_code_complexity q h = Inr h'" "is_store h' memory cap xs"
    by blast
  then show "\<exists>h'. analyze_code_complexity q h = Inr h' \<and>
      is_store h' memory cap xs \<and> capacity_ge_count h' memory"
    using is_store_capacity_ge_count by blast
next
  assume "int (length xs) + int (length (adds_of ops)) \<le> 1073741824 \<and>
     (\<forall>q. AnalyzeComplexity q \<in> set ops \<longrightarrow> (\<exists>x. pattern_at h q = Inr x))"
  then obtain h' cap' where
    "run (map (apply_op memory) ops) h = Inr h'" "is_store h' memory cap' (xs @ adds_of ops)"
    using apply_ops_store [OF assms, of ops] by blast
  then show "\<exists>h' cap'. run (map (apply_op memory) ops) h = Inr h' \<and>
      is_store h' memory cap' (xs @ adds_of ops) \<and> capacity_ge_count h' memory"
    using is_store_capacity_ge_count by blast
qed

theorem capacity_at_least_count_witness:
  "is_store (store_heap 1) (Ptr 0) 1 [] \<and>
   (\<exists>h' cap'. add_pattern_to_memory (Ptr 0) (Ptr 2) (store_heap 1) = Inr h' \<and>
      is_store h' (Ptr 0) cap' [Ptr 2] \<and> capacity_ge_count h' (Ptr 0)) \<and>
   (\<exists>h'. analyze_code_complexity (Ptr 2) (store_heap 1) = Inr h' \<and>
      is_store h' (Ptr 0) 1 [] \<and> capacity_ge_count h' (Ptr 0)) \<and>
   (\<exists>h' cap'.
      run (map (apply_op (Ptr 0))
             [Add (Ptr 2), AnalyzeComplexity (Ptr 2), Add Null, Add (Ptr 2)])
        (store_heap 1) = Inr h' \<and>
      is_store h' (Ptr 0) cap' [Ptr 2, Null, Ptr 2] \<and> capacity_ge_count h' (Ptr 0))"
proof -
  let ?ops = "[Add (Ptr 2), AnalyzeComplexity (Ptr 2), Add Null, Add (Ptr 2)]"
  have s: "is_store (store_heap 1) (Ptr 0) 1 []"
    by (simp add: is_store_def store_heap_def empty_heap_def INT_MAX_def)
  have live: "\<exists>x. pattern_at (store_heap 1) (Ptr 2) = Inr x"
    by (simp add: pattern_at_def store_heap_def empty_heap_def)
  have room: "int (length ([]::ptr list)) < 1 \<or> 2 * 1 \<le> INT_MAX"
    by simp
  have seq: "int (length ([]::ptr list)) + int (length (adds_of ?ops)) \<le> 1073741824 \<and>
     (\<forall>q. AnalyzeComplexity q \<in> set ?ops \<longrightarrow> (\<exists>x. pattern_at (store_heap 1) q = Inr x))"
    using live by simp
  show ?thesis
    using s live room seq capacity_at_least_count [OF s, of "Ptr 2" "Ptr 2" ?ops]
    by simp
qed

text \<open>
  \<^bold>\<open>C7\<close>, as the claim has it, fails for the initial capacity 0. The store with capacity
  0, count 0 and a block of no slots satisfies the invariant; adding a pattern doubles
  the capacity to 0, reallocates to no slots and writes the slot of index 0, which is
  outside the block.
\<close>

theorem capacity_zero_counterexample:
  "capacity_ge_count (store_heap 0) (Ptr 0) \<and>
   add_pattern_to_memory (Ptr 0) (Ptr 2) (store_heap 0) = Inl OutOfBounds"
  by (simp add: capacity_ge_count_def add_pattern_to_memory_def memory_at_def array_at_def
      realloc_patterns_def store_heap_def empty_heap_def INT_MAX_def INT_MIN_def)

subsection \<open>Insertion order\<close>

text \<open>
  \<^bold>\<open>C9\<close>, as the code has it. Take a store as above that holds the patterns \<open>xs\<close> in this
  order, and patterns \<open>ps\<close> (any pointers, repeated or not) such that \<open>xs\<close> and \<open>ps\<close>
  together are at most 1073741824. Adding \<open>ps\<close> one after the other returns, and
  iterating the store then yields \<open>xs\<close> followed by \<open>ps\<close>: what was stored has kept its
  place, and what was added follows in the order of the calls. No pattern object is
  changed.
\<close>

theorem insertion_order_is_preserved:
  assumes "is_store h memory cap xs" "int (length xs) + int (length ps) \<le> 1073741824"
  shows "\<exists>h'. run (map (add_pattern_to_memory memory) ps) h = Inr h' \<and>
           iterate_patterns h memory = Inr xs \<and>
           iterate_patterns h' memory = Inr (xs @ ps) \<and>
           pattern_objs h' = pattern_objs h"
proof -
  from add_patterns_grow [OF assms] obtain h' cap' where
    "run (map (add_pattern_to_memory memory) ps) h = Inr h'" "is_store h' memory cap' (xs @ ps)"
    "pattern_objs h' = pattern_objs h"
    by blast
  then show ?thesis
    using is_store_iterate [OF assms(1)] is_store_iterate [of h' memory cap' "xs @ ps"]
    by (intro exI [of _ h'] conjI)
qed

theorem insertion_order_is_preserved_witness:
  "is_store (store_heap 1) (Ptr 0) 1 [] \<and>
   (\<exists>h'. run (map (add_pattern_to_memory (Ptr 0)) [Ptr 2, Null, Ptr 2]) (store_heap 1) = Inr h' \<and>
      iterate_patterns (store_heap 1) (Ptr 0) = Inr [] \<and>
      iterate_patterns h' (Ptr 0) = Inr [Ptr 2, Null, Ptr 2] \<and>
      pattern_objs h' = pattern_objs (store_heap 1))"
proof -
  have s: "is_store (store_heap 1) (Ptr 0) 1 []"
    by (simp add: is_store_def store_heap_def empty_heap_def INT_MAX_def)
  show ?thesis
    using s insertion_order_is_preserved [OF s, of "[Ptr 2, Null, Ptr 2]"] by simp
qed

text \<open>
  \<^bold>\<open>C9\<close>, as the claim has it, fails in two places. The memory that \<^verbatim>\<open>main\<close> creates
  has the capacity 10 and \<^verbatim>\<open>NULL\<close> for its block of pattern pointers, so the first
  pattern added to it is written through \<^verbatim>\<open>NULL\<close>, and there is nothing to iterate. And
  a full store of 1073741824 patterns, which iterates to these patterns, takes no
  further one: doubling its capacity leaves the range of \<^verbatim>\<open>int\<close>.
\<close>

theorem insertion_fails_counterexample:
  "fst (new_code_memory 10 empty_heap) = Ptr 0 \<and>
   create_code_pattern (Some ''int x;'') (Some ''C'') 1 (snd (new_code_memory 10 empty_heap)) =
     Inr (Ptr 1, main_memory_heap) \<and>
   add_pattern_to_memory (Ptr 0) (Ptr 1) main_memory_heap = Inl NullDeref \<and>
   is_store full_store_heap (Ptr 0) 1073741824 (replicate 1073741824 (Ptr 2)) \<and>
   add_pattern_to_memory (Ptr 0) (Ptr 2) full_store_heap = Inl SignedOverflow"
proof -
  have main: "fst (new_code_memory 10 empty_heap) = Ptr 0 \<and>
      create_code_pattern (Some ''int x;'') (Some ''C'') 1 (snd (new_code_memory 10 empty_heap)) =
        Inr (Ptr 1, main_memory_heap) \<and>
      add_pattern_to_memory (Ptr 0) (Ptr 1) main_memory_heap = Inl NullDeref"
    by (simp add: new_code_memory_def create_code_pattern_def main_memory_heap_def empty_heap_def
        add_pattern_to_memory_def memory_at_def array_at_def)
  have full: "is_store full_store_heap (Ptr 0) 1073741824 (replicate 1073741824 (Ptr 2))"
    by (simp add: is_store_def full_store_heap_def empty_heap_def INT_MAX_def)
  have "add_pattern_to_memory (Ptr 0) (Ptr 2) full_store_heap = Inl SignedOverflow"
    by (rule add_pattern_to_memory_overflow [OF full]) (simp_all add: INT_MAX_def)
  then show ?thesis
    using main full by (intro conjI) (elim conjE, assumption)+
qed

end
